theory Spec2Isabelle
  imports Complex_Main
begin

section \<open>Triangle meshes\<close>

text \<open>
  The program (InTreeG.py) builds every solid as a mesh object of the trimesh library:
  an array of vertex positions, an array of triangles (index triples into the vertex
  array) and one colour per triangle. Coordinates are Python floats; they are modelled
  here as exact reals, so rounding is outside the model. A colour is the list of channel
  values the program builds (\<open>[r, g, b, 255]\<close>).
\<close>

type_synonym vec3 = "real \<times> real \<times> real"
type_synonym face = "nat \<times> nat \<times> nat"
type_synonym color = "int list"

record mesh =
  vertices :: "vec3 list"
  faces :: "face list"
  face_colors :: "color list"

datatype error = TypeError | IndexError

definition xc :: "vec3 \<Rightarrow> real" where
  "xc v = fst v"

definition yc :: "vec3 \<Rightarrow> real" where
  "yc v = fst (snd v)"

definition zc :: "vec3 \<Rightarrow> real" where
  "zc v = snd (snd v)"

text \<open>Column-wise minimum and maximum of a non-empty array of points
  (\<open>in_mesh.min(axis=0)\<close>, \<open>in_mesh.max(axis=0)\<close>).\<close>

definition axis_min :: "vec3 list \<Rightarrow> vec3" where
  "axis_min vs = (Min (set (map xc vs)), Min (set (map yc vs)), Min (set (map zc vs)))"

definition axis_max :: "vec3 list \<Rightarrow> vec3" where
  "axis_max vs = (Max (set (map xc vs)), Max (set (map yc vs)), Max (set (map zc vs)))"

definition face_uses :: "nat \<Rightarrow> face \<Rightarrow> bool" where
  "face_uses i f = (case f of (a, b, c) \<Rightarrow> i = a \<or> i = b \<or> i = c)"

definition faces_in_range :: "mesh \<Rightarrow> bool" where
  "faces_in_range m =
     list_all (\<lambda>(a, b, c). a < length (vertices m) \<and> b < length (vertices m)
                            \<and> c < length (vertices m)) (faces m)"

text \<open>The mask \<open>referenced_vertices\<close> of trimesh: entry \<open>i\<close> tells whether some
  triangle uses vertex \<open>i\<close>.\<close>

definition referenced_vertices :: "mesh \<Rightarrow> bool list" where
  "referenced_vertices m =
     map (\<lambda>i. list_ex (face_uses i) (faces m)) [0..<length (vertices m)]"

text \<open>
  The property \<open>bounds\<close> of a trimesh mesh: the axis-aligned bounds of the vertices that
  the triangles reference, \<open>None\<close> when there is none. Building the mask indexes an array
  of the vertices' length with the triangles, which raises \<open>IndexError\<close> on an index
  that is out of range.
\<close>

definition bounds :: "mesh \<Rightarrow> error + (vec3 \<times> vec3) option" where
  "bounds m =
     (if \<not> faces_in_range m then Inl IndexError
      else let in_mesh = map fst (filter snd (zip (vertices m) (referenced_vertices m)))
           in if in_mesh = [] then Inr None
              else Inr (Some (axis_min in_mesh, axis_max in_mesh)))"

text \<open>\<open>apply_translation\<close>: every vertex is moved by the same vector; triangles and
  colours stay.\<close>

definition translate :: "vec3 \<Rightarrow> vec3 \<Rightarrow> vec3" where
  "translate t v = (xc v + xc t, yc v + yc t, zc v + zc t)"

definition apply_translation :: "mesh \<Rightarrow> vec3 \<Rightarrow> mesh" where
  "apply_translation m t = m\<lparr>vertices := map (translate t) (vertices m)\<rparr>"

section \<open>Stacking\<close>

text \<open>
  \<open>stack_on_top(bottom_mesh, top_mesh, overlap)\<close> moves \<open>top_mesh\<close> in place and returns it.
  \<open>stack_on_top\<close> below gives the new value of the top object; subscripting the bounds
  of a mesh without referenced vertices (\<open>None[1][2]\<close>) raises \<open>TypeError\<close>.
\<close>

definition stack_on_top :: "mesh \<Rightarrow> mesh \<Rightarrow> real \<Rightarrow> error + mesh" where
  "stack_on_top bottom_mesh top_mesh overlap =
     (case bounds bottom_mesh of
        Inl e \<Rightarrow> Inl e
      | Inr None \<Rightarrow> Inl TypeError
      | Inr (Some bottom_bounds) \<Rightarrow>
          (let bottom_z_max = zc (snd bottom_bounds) in
           case bounds top_mesh of
             Inl e \<Rightarrow> Inl e
           | Inr None \<Rightarrow> Inl TypeError
           | Inr (Some top_bounds) \<Rightarrow>
               (let top_z_min = zc (fst top_bounds);
                    shift_z = (bottom_z_max - overlap) - top_z_min
                in Inr (apply_translation top_mesh (0, 0, shift_z)))))"

text \<open>
  The same call on objects: the store maps object identities to their current value,
  the two arguments are identities, and the only write is to the top object.
\<close>

type_synonym store = "nat \<Rightarrow> mesh"

definition stack_on_top_obj :: "store \<Rightarrow> nat \<Rightarrow> nat \<Rightarrow> real \<Rightarrow> error + store" where
  "stack_on_top_obj s bottom_ref top_ref overlap =
     (case stack_on_top (s bottom_ref) (s top_ref) overlap of
        Inl e \<Rightarrow> Inl e
      | Inr moved \<Rightarrow> Inr (s(top_ref := moved)))"

text \<open>The extent of a mesh along Z, over all its vertices.\<close>

definition z_min :: "mesh \<Rightarrow> real" where
  "z_min m = Min (set (map zc (vertices m)))"

definition z_max :: "mesh \<Rightarrow> real" where
  "z_max m = Max (set (map zc (vertices m)))"

text \<open>
  A solid: a mesh with at least one vertex whose triangles index its own vertices and
  use every one of them, as the meshes that trimesh constructs do.
\<close>

definition solid :: "mesh \<Rightarrow> bool" where
  "solid m \<longleftrightarrow> vertices m \<noteq> [] \<and> faces_in_range m \<and> list_all id (referenced_vertices m)"

section \<open>Colours and concatenation\<close>

text \<open>Assigning one colour to \<open>visual.face_colors\<close> gives that colour to every
  triangle of the mesh.\<close>

definition set_face_colors :: "mesh \<Rightarrow> color \<Rightarrow> mesh" where
  "set_face_colors m c = m\<lparr>face_colors := replicate (length (faces m)) c\<rparr>"

definition offset_face :: "nat \<Rightarrow> face \<Rightarrow> face" where
  "offset_face k f = (case f of (a, b, c) \<Rightarrow> (a + k, b + k, c + k))"

text \<open>
  \<open>trimesh.util.concatenate\<close> stacks the vertex arrays, the triangle arrays (each
  shifted by the number of vertices before it) and the triangle colours of the meshes,
  in order. It returns an empty mesh for an empty list.
\<close>

fun append_faces :: "nat \<Rightarrow> mesh list \<Rightarrow> face list" where
  "append_faces face_offset [] = []"
| "append_faces face_offset (m # ms) =
     map (offset_face face_offset) (faces m)
     @ append_faces (face_offset + length (vertices m)) ms"

definition concatenate :: "mesh list \<Rightarrow> mesh" where
  "concatenate ms =
     \<lparr>vertices = concat (map vertices ms),
      faces = append_faces 0 ms,
      face_colors = concat (map face_colors ms)\<rparr>"

text \<open>The colour-count invariant: one colour for each triangle.\<close>

definition one_color_per_face :: "mesh \<Rightarrow> bool" where
  "one_color_per_face m \<longleftrightarrow> length (face_colors m) = length (faces m)"

section \<open>The random source\<close>

text \<open>
  The program draws from numpy's global generator. The generator is an explicit state
  here: a sequence of draws from the unit interval \<open>[0, 1)\<close> and the number of draws used
  so far. \<open>rand()\<close> is the next draw \<open>u\<close>, \<open>uniform(low, high)\<close> is \<open>low + (high - low) * u\<close>,
  and \<open>randint(low, high)\<close> is taken as the integer \<open>low + floor (u * (high - low))\<close>
  of \<open>[low, high)\<close>.
\<close>

record rng =
  sample :: "nat \<Rightarrow> real"
  used :: nat

definition unit_draws :: "rng \<Rightarrow> bool" where
  "unit_draws g \<longleftrightarrow> (\<forall>i. 0 \<le> sample g i \<and> sample g i < 1)"

definition rand :: "rng \<Rightarrow> real \<times> rng" where
  "rand g = (sample g (used g), g\<lparr>used := Suc (used g)\<rparr>)"

definition uniform :: "real \<Rightarrow> real \<Rightarrow> rng \<Rightarrow> real \<times> rng" where
  "uniform low high g = (let (u, g1) = rand g in (low + (high - low) * u, g1))"

definition randint :: "int \<Rightarrow> int \<Rightarrow> rng \<Rightarrow> int \<times> rng" where
  "randint low high g =
     (let (u, g1) = rand g in (low + \<lfloor>u * real_of_int (high - low)\<rfloor>, g1))"

definition clip :: "int \<Rightarrow> int \<Rightarrow> int \<Rightarrow> int" where
  "clip a a_min a_max = min (max a a_min) a_max"

text \<open>\<open>get_random_color(base_rgb, variance=25)\<close>; every call of the program leaves
  \<open>variance\<close> at its default.\<close>

definition variance :: int where
  "variance = 25"

fun random_channels :: "int list \<Rightarrow> rng \<Rightarrow> int list \<times> rng" where
  "random_channels [] g = ([], g)"
| "random_channels (c # cs) g =
     (let (d, g1) = randint (- variance) variance g;
          (rest, g2) = random_channels cs g1
      in (clip (c + d) 0 255 # rest, g2))"

definition get_random_color :: "int list \<Rightarrow> rng \<Rightarrow> color \<times> rng" where
  "get_random_color base_rgb g =
     (let (channels, g1) = random_channels base_rgb g in (channels @ [255], g1))"

section \<open>Primitives\<close>

text \<open>
  The three constructors of \<open>trimesh.creation\<close> that the program calls belong to the
  library, not to the program, and are parameters of the model:
  \<open>cylinder radius height sections\<close>, \<open>cone radius height sections\<close> and
  \<open>icosphere subdivisions radius\<close>.
\<close>

record creation =
  cylinder :: "real \<Rightarrow> real \<Rightarrow> nat \<Rightarrow> mesh"
  cone :: "real \<Rightarrow> real \<Rightarrow> nat \<Rightarrow> mesh"
  icosphere :: "nat \<Rightarrow> real \<Rightarrow> mesh"

text \<open>
  What the program relies on: the constructors return solids, and the cylinder is
  centred at the origin (the comment in \<open>create_trunk\<close>: ``cylinder center is at 0,0,0''),
  so that it spans \<open>[- height / 2, height / 2]\<close> along Z.
\<close>

definition centred_cylinder :: "creation \<Rightarrow> real \<Rightarrow> real \<Rightarrow> nat \<Rightarrow> bool" where
  "centred_cylinder lib radius height sections \<longleftrightarrow>
     solid (cylinder lib radius height sections)
     \<and> z_min (cylinder lib radius height sections) = - (height / 2)
     \<and> z_max (cylinder lib radius height sections) = height / 2"

definition creation_contract :: "creation \<Rightarrow> bool" where
  "creation_contract lib \<longleftrightarrow>
     (\<forall>radius height sections. 0 < radius \<and> 0 < height \<longrightarrow>
        centred_cylinder lib radius height sections
        \<and> solid (cone lib radius height sections))
     \<and> (\<forall>subdivisions radius. 0 < radius \<longrightarrow> solid (icosphere lib subdivisions radius))"

definition create_trunk :: "creation \<Rightarrow> real \<Rightarrow> real \<Rightarrow> mesh" where
  "create_trunk lib height radius =
     (let trunk = cylinder lib radius height 5;
          trunk = set_face_colors trunk [101, 67, 33, 255]
      in apply_translation trunk (0, 0, height / 2))"

section \<open>Tree generators\<close>

definition OVERLAP_AMOUNT :: real where
  "OVERLAP_AMOUNT = 0.5"

text \<open>
  Each generator is split in two: the part up to the last \<open>stack_on_top\<close>, which yields
  the primitives in their stacked places, and the final concatenation and translation
  to the plot position.
\<close>

definition roundy_parts :: "creation \<Rightarrow> rng \<Rightarrow> error + (mesh \<times> mesh \<times> rng)" where
  "roundy_parts lib g =
     (let (h_trunk, g1) = uniform 3 6 g;
          (r_crown, g2) = uniform 2.5 4.5 g1;
          trunk = create_trunk lib h_trunk 0.7;
          crown = icosphere lib 1 r_crown;
          (col, g3) = get_random_color [124, 204, 57] g2;
          crown = set_face_colors crown col
      in case stack_on_top trunk crown OVERLAP_AMOUNT of
           Inl e \<Rightarrow> Inl e
         | Inr crown \<Rightarrow> Inr (trunk, crown, g3))"

definition create_roundy_tree :: "creation \<Rightarrow> vec3 \<Rightarrow> rng \<Rightarrow> error + (mesh \<times> rng)" where
  "create_roundy_tree lib pos g =
     (case roundy_parts lib g of
        Inl e \<Rightarrow> Inl e
      | Inr (trunk, crown, g1) \<Rightarrow>
          Inr (apply_translation (concatenate [trunk, crown]) pos, g1))"

definition pointy_parts :: "creation \<Rightarrow> rng \<Rightarrow> error + (mesh \<times> mesh \<times> rng)" where
  "pointy_parts lib g =
     (let (h_trunk, g1) = uniform 2 4 g;
          (h_crown, g2) = uniform 6 10 g1;
          (r_crown, g3) = uniform 2.5 4.0 g2;
          trunk = create_trunk lib h_trunk 0.6;
          crown = cone lib r_crown h_crown 6;
          (col, g4) = get_random_color [34, 139, 34] g3;
          crown = set_face_colors crown col
      in case stack_on_top trunk crown OVERLAP_AMOUNT of
           Inl e \<Rightarrow> Inl e
         | Inr crown \<Rightarrow> Inr (trunk, crown, g4))"

definition create_pointy_tree :: "creation \<Rightarrow> vec3 \<Rightarrow> rng \<Rightarrow> error + (mesh \<times> rng)" where
  "create_pointy_tree lib pos g =
     (case pointy_parts lib g of
        Inl e \<Rightarrow> Inl e
      | Inr (trunk, crown, g1) \<Rightarrow>
          Inr (apply_translation (concatenate [trunk, crown]) pos, g1))"

definition stacked_parts ::
  "creation \<Rightarrow> rng \<Rightarrow> error + (mesh \<times> mesh \<times> mesh \<times> rng)" where
  "stacked_parts lib g =
     (let (h_trunk, g1) = uniform 2 3 g;
          trunk = create_trunk lib h_trunk 0.7;
          (h1, g2) = uniform 3 5 g1;
          (r1, g3) = uniform 3 4 g2;
          c1 = cone lib r1 h1 7;
          (col1, g4) = get_random_color [46, 139, 87] g3;
          c1 = set_face_colors c1 col1
      in case stack_on_top trunk c1 OVERLAP_AMOUNT of
           Inl e \<Rightarrow> Inl e
         | Inr c1 \<Rightarrow>
             (let (h2, g5) = uniform 2 4 g4;
                  c2 = cone lib 2.0 h2 7;
                  (col2, g6) = get_random_color [143, 188, 143] g5;
                  c2 = set_face_colors c2 col2
              in case stack_on_top c1 c2 OVERLAP_AMOUNT of
                   Inl e \<Rightarrow> Inl e
                 | Inr c2 \<Rightarrow> Inr (trunk, c1, c2, g6)))"

definition create_stacked_tree :: "creation \<Rightarrow> vec3 \<Rightarrow> rng \<Rightarrow> error + (mesh \<times> rng)" where
  "create_stacked_tree lib pos g =
     (case stacked_parts lib g of
        Inl e \<Rightarrow> Inl e
      | Inr (trunk, c1, c2, g1) \<Rightarrow>
          Inr (apply_translation (concatenate [trunk, c1, c2]) pos, g1))"

section \<open>Main logic\<close>

text \<open>\<open>np.random.uniform(low, high, (n, 2))\<close> fills the \<open>n\<close> rows in order.\<close>

fun uniform_rows :: "nat \<Rightarrow> real \<Rightarrow> real \<Rightarrow> rng \<Rightarrow> (real \<times> real) list \<times> rng" where
  "uniform_rows 0 low high g = ([], g)"
| "uniform_rows (Suc n) low high g =
     (let (x, g1) = uniform low high g;
          (y, g2) = uniform low high g1;
          (rows, g3) = uniform_rows n low high g2
      in ((x, y) # rows, g3))"

datatype archetype = Roundy | Pointy | Stacked

definition choose_archetype :: "real \<Rightarrow> archetype" where
  "choose_archetype rnd = (if rnd < 0.4 then Roundy else if rnd < 0.75 then Pointy else Stacked)"

text \<open>How many of the \<open>n\<close> equally spaced draws \<open>0 / n, 1 / n, ..., (n - 1) / n\<close> select
  a given archetype.\<close>

definition grid_count :: "archetype \<Rightarrow> nat \<Rightarrow> nat" where
  "grid_count a n = length (filter (\<lambda>k. choose_archetype (real k / real n) = a) [0..<n])"

text \<open>The body of the loop over the tree indices: one draw picks the generator.\<close>

definition make_tree :: "creation \<Rightarrow> vec3 \<Rightarrow> rng \<Rightarrow> error + (mesh \<times> rng)" where
  "make_tree lib pos g =
     (let (rnd, g1) = rand g in
      case choose_archetype rnd of
        Roundy \<Rightarrow> create_roundy_tree lib pos g1
      | Pointy \<Rightarrow> create_pointy_tree lib pos g1
      | Stacked \<Rightarrow> create_stacked_tree lib pos g1)"

fun grow :: "creation \<Rightarrow> (real \<times> real) list \<Rightarrow> rng \<Rightarrow> error + (mesh list \<times> rng)" where
  "grow lib [] g = Inr ([], g)"
| "grow lib (p # positions) g =
     (case make_tree lib (fst p, snd p, 0) g of
        Inl e \<Rightarrow> Inl e
      | Inr (tree, g1) \<Rightarrow>
          (case grow lib positions g1 of
             Inl e \<Rightarrow> Inl e
           | Inr (meshes, g2) \<Rightarrow> Inr (tree # meshes, g2)))"



text \<open>
  The code below the sliders takes \<open>n_trees\<close> and \<open>plot_size\<close> as they are and checks
  neither. \<open>forest_mesh\<close> is the mesh of that name.
\<close>

definition forest_mesh :: "creation \<Rightarrow> nat \<Rightarrow> int \<Rightarrow> rng \<Rightarrow> error + mesh" where
  "forest_mesh lib n_trees plot_size g =
     (let (positions, g1) =
            uniform_rows n_trees (- (real_of_int plot_size / 2)) (real_of_int plot_size / 2) g
      in case grow lib positions g1 of
           Inl e \<Rightarrow> Inl e
         | Inr (meshes, g2) \<Rightarrow> Inr (concatenate meshes))"

section \<open>Visualization\<close>

text \<open>A \<open>go.Mesh3d\<close> trace, with the arguments the program passes.\<close>

record mesh3d =
  trace_x :: "real list"
  trace_y :: "real list"
  trace_z :: "real list"
  trace_i :: "nat list"
  trace_j :: "nat list"
  trace_k :: "nat list"
  trace_facecolor :: "color list option"
  trace_color :: "string option"
  trace_name :: string

definition trees_trace :: "mesh \<Rightarrow> mesh3d" where
  "trees_trace forest =
     \<lparr>trace_x = map xc (vertices forest), trace_y = map yc (vertices forest),
      trace_z = map zc (vertices forest),
      trace_i = map (\<lambda>(a, b, c). a) (faces forest),
      trace_j = map (\<lambda>(a, b, c). b) (faces forest),
      trace_k = map (\<lambda>(a, b, c). c) (faces forest),
      trace_facecolor = Some (map (take 3) (face_colors forest)),
      trace_color = None, trace_name = ''Trees''\<rparr>"

definition ground_trace :: "int \<Rightarrow> mesh3d" where
  "ground_trace plot_size =
     \<lparr>trace_x = [- (real_of_int plot_size / 1.8), real_of_int plot_size / 1.8,
                 real_of_int plot_size / 1.8, - (real_of_int plot_size / 1.8)],
      trace_y = [- (real_of_int plot_size / 1.8), - (real_of_int plot_size / 1.8),
                 real_of_int plot_size / 1.8, real_of_int plot_size / 1.8],
      trace_z = [- 0.1, - 0.1, - 0.1, - 0.1],
      trace_i = [0, 0], trace_j = [1, 2], trace_k = [2, 3],
      trace_facecolor = None,
      trace_color = Some ''rgb(160, 200, 120)'', trace_name = ''Ground''\<rparr>"

text \<open>Vertex \<open>n\<close> of a trace is \<open>(x[n], y[n], z[n])\<close>, triangle \<open>n\<close> is \<open>(i[n], j[n], k[n])\<close>.\<close>

definition trace_vertices :: "mesh3d \<Rightarrow> vec3 list" where
  "trace_vertices t = zip (trace_x t) (zip (trace_y t) (trace_z t))"

definition trace_triangles :: "mesh3d \<Rightarrow> face list" where
  "trace_triangles t = zip (trace_i t) (zip (trace_j t) (trace_k t))"

definition figure :: "creation \<Rightarrow> nat \<Rightarrow> int \<Rightarrow> rng \<Rightarrow> error + mesh3d list" where
  "figure lib n_trees plot_size g =
     (case forest_mesh lib n_trees plot_size g of
        Inl e \<Rightarrow> Inl e
      | Inr forest \<Rightarrow> Inr [trees_trace forest, ground_trace plot_size])"

section \<open>A coarse instance of the primitives\<close>

text \<open>
  The vertices of the library's primitives lie on circles (cosines and sines of
  multiples of \<open>2 * pi / sections\<close>). To run the model on concrete inputs the theory
  uses a coarse instance with rational coordinates: a triangular prism centred at the
  origin for the cylinder, a triangular pyramid for the cone and an octahedron for the
  sphere, each in the library's default colour.
\<close>

definition default_color :: color where
  "default_color = [102, 102, 102, 255]"

definition coarse_cylinder :: "real \<Rightarrow> real \<Rightarrow> nat \<Rightarrow> mesh" where
  "coarse_cylinder radius height sections =
     \<lparr>vertices = [(radius, 0, - (height / 2)), (- radius, 0, - (height / 2)),
                  (0, radius, - (height / 2)),
                  (radius, 0, height / 2), (- radius, 0, height / 2),
                  (0, radius, height / 2)],
      faces = [(0, 2, 1), (3, 4, 5), (0, 1, 4), (0, 4, 3),
               (1, 2, 5), (1, 5, 4), (2, 0, 3), (2, 3, 5)],
      face_colors = replicate 8 default_color\<rparr>"

definition coarse_cone :: "real \<Rightarrow> real \<Rightarrow> nat \<Rightarrow> mesh" where
  "coarse_cone radius height sections =
     \<lparr>vertices = [(radius, 0, 0), (- radius, 0, 0), (0, radius, 0), (0, 0, height)],
      faces = [(0, 2, 1), (0, 1, 3), (1, 2, 3), (2, 0, 3)],
      face_colors = replicate 4 default_color\<rparr>"

definition coarse_icosphere :: "nat \<Rightarrow> real \<Rightarrow> mesh" where
  "coarse_icosphere subdivisions radius =
     \<lparr>vertices = [(radius, 0, 0), (- radius, 0, 0), (0, radius, 0), (0, - radius, 0),
                  (0, 0, radius), (0, 0, - radius)],
      faces = [(0, 2, 4), (2, 1, 4), (1, 3, 4), (3, 0, 4),
               (2, 0, 5), (1, 2, 5), (3, 1, 5), (0, 3, 5)],
      face_colors = replicate 8 default_color\<rparr>"

definition coarse :: creation where
  "coarse = \<lparr>cylinder = coarse_cylinder, cone = coarse_cone, icosphere = coarse_icosphere\<rparr>"

text \<open>A random source whose every draw is \<open>u\<close>.\<close>

definition constant_rng :: "real \<Rightarrow> rng" where
  "constant_rng u = \<lparr>sample = (\<lambda>_. u), used = 0\<rparr>"

text \<open>A store with two objects: a prism at identity 0, a pyramid at every other.\<close>

definition two_objects :: store where
  "two_objects = (\<lambda>r. if r = 0 then coarse_cylinder 1 4 5 else coarse_cone 2 3 6)"

section \<open>Bounds of solids\<close>

lemma filter_all_marked:
  "length bs = length vs \<Longrightarrow> list_all id bs \<Longrightarrow> map fst (filter snd (zip vs bs)) = vs"
proof (induction vs arbitrary: bs)
  case Nil
  then show ?case by simp
next
  case (Cons v vs)
  then obtain b bs' where bs: "bs = b # bs'" by (cases bs) auto
  with Cons show ?case by simp
qed

lemma length_referenced_vertices [simp]:
  "length (referenced_vertices m) = length (vertices m)"
  by (simp add: referenced_vertices_def)

lemma bounds_solid:
  assumes "solid m"
  shows "bounds m = Inr (Some (axis_min (vertices m), axis_max (vertices m)))"
proof -
  from assms have r: "faces_in_range m" and v: "vertices m \<noteq> []"
    and a: "list_all id (referenced_vertices m)"
    by (simp_all add: solid_def)
  have "map fst (filter snd (zip (vertices m) (referenced_vertices m))) = vertices m"
    using a by (intro filter_all_marked) simp_all
  with r v show ?thesis by (simp add: bounds_def Let_def)
qed

lemma zc_axis_min [simp]: "zc (axis_min vs) = Min (set (map zc vs))"
  by (simp add: axis_min_def zc_def)

lemma zc_axis_max [simp]: "zc (axis_max vs) = Max (set (map zc vs))"
  by (simp add: axis_max_def zc_def)

lemma vertices_apply_translation [simp]:
  "vertices (apply_translation m t) = map (translate t) (vertices m)"
  by (simp add: apply_translation_def)

lemma faces_apply_translation [simp]: "faces (apply_translation m t) = faces m"
  by (simp add: apply_translation_def)

lemma face_colors_apply_translation [simp]:
  "face_colors (apply_translation m t) = face_colors m"
  by (simp add: apply_translation_def)

lemma zc_translate [simp]: "zc (translate t v) = zc v + zc t"
  by (simp add: translate_def zc_def)

lemma xc_translate [simp]: "xc (translate t v) = xc v + xc t"
  by (simp add: translate_def xc_def)

lemma yc_translate [simp]: "yc (translate t v) = yc v + yc t"
  by (simp add: translate_def yc_def yc_def)

lemma solid_apply_translation [simp]: "solid (apply_translation m t) = solid m"
  by (simp add: solid_def faces_in_range_def referenced_vertices_def)

lemma Min_shift:
  fixes d :: real
  assumes "vs \<noteq> []"
  shows "Min (set (map (\<lambda>v. f v + d) vs)) = Min (set (map f vs)) + d"
proof -
  have "mono (\<lambda>a. a + d)" by (simp add: mono_def)
  then have "Min ((\<lambda>a. a + d) ` set (map f vs)) = Min (set (map f vs)) + d"
    using assms by (subst mono_Min_commute [symmetric]) simp_all
  then show ?thesis by (simp add: image_image)
qed

lemma Max_shift:
  fixes d :: real
  assumes "vs \<noteq> []"
  shows "Max (set (map (\<lambda>v. f v + d) vs)) = Max (set (map f vs)) + d"
proof -
  have "mono (\<lambda>a. a + d)" by (simp add: mono_def)
  then have "Max ((\<lambda>a. a + d) ` set (map f vs)) = Max (set (map f vs)) + d"
    using assms by (subst mono_Max_commute [symmetric]) simp_all
  then show ?thesis by (simp add: image_image)
qed

lemma z_min_apply_translation:
  "vertices m \<noteq> [] \<Longrightarrow> z_min (apply_translation m t) = z_min m + zc t"
  using Min_shift [of "vertices m" zc "zc t"] by (simp add: z_min_def comp_def)

lemma z_max_apply_translation:
  "vertices m \<noteq> [] \<Longrightarrow> z_max (apply_translation m t) = z_max m + zc t"
  using Max_shift [of "vertices m" zc "zc t"] by (simp add: z_max_def comp_def)

lemma stack_on_top_solid:
  assumes "solid bottom_mesh" and "solid top_mesh"
  shows "stack_on_top bottom_mesh top_mesh overlap =
         Inr (apply_translation top_mesh
                (0, 0, (z_max bottom_mesh - overlap) - z_min top_mesh))"
  using assms by (simp add: stack_on_top_def bounds_solid z_min_def z_max_def)

lemma stack_on_top_vertices:
  assumes "stack_on_top bottom_mesh top_mesh overlap = Inr moved"
  shows "\<exists>shift_z. moved = apply_translation top_mesh (0, 0, shift_z)"
  using assms
  by (auto simp: stack_on_top_def Let_def split: sum.splits option.splits)

section \<open>Colours, trunk and random draws\<close>

lemma vertices_set_face_colors [simp]: "vertices (set_face_colors m c) = vertices m"
  by (simp add: set_face_colors_def)

lemma faces_set_face_colors [simp]: "faces (set_face_colors m c) = faces m"
  by (simp add: set_face_colors_def)

lemma face_colors_set_face_colors [simp]:
  "face_colors (set_face_colors m c) = replicate (length (faces m)) c"
  by (simp add: set_face_colors_def)

lemma solid_set_face_colors [simp]: "solid (set_face_colors m c) = solid m"
  by (simp add: solid_def faces_in_range_def referenced_vertices_def)

lemma z_min_set_face_colors [simp]: "z_min (set_face_colors m c) = z_min m"
  by (simp add: z_min_def)

lemma z_max_set_face_colors [simp]: "z_max (set_face_colors m c) = z_max m"
  by (simp add: z_max_def)

lemma solid_vertices: "solid m \<Longrightarrow> vertices m \<noteq> []"
  by (simp add: solid_def)

lemma create_trunk_eq:
  "create_trunk lib height radius =
     apply_translation (set_face_colors (cylinder lib radius height 5) [101, 67, 33, 255])
       (0, 0, height / 2)"
  by (simp add: create_trunk_def Let_def)

lemma create_trunk_extent:
  assumes "centred_cylinder lib radius height 5"
  shows "solid (create_trunk lib height radius)"
    and "z_min (create_trunk lib height radius) = 0"
    and "z_max (create_trunk lib height radius) = height"
  using assms
  by (simp_all add: create_trunk_eq centred_cylinder_def z_min_apply_translation
      z_max_apply_translation solid_vertices zc_def)

lemma coarse_contract: "creation_contract coarse"
  by (simp add: creation_contract_def centred_cylinder_def coarse_def solid_def
      coarse_cylinder_def coarse_cone_def coarse_icosphere_def
      faces_in_range_def referenced_vertices_def face_uses_def z_min_def z_max_def zc_def)


lemma uniform_eq:
  "uniform low high g = (low + (high - low) * sample g (used g), g\<lparr>used := Suc (used g)\<rparr>)"
  by (simp add: uniform_def rand_def)

lemma randint_eq:
  "randint low high g =
     (low + \<lfloor>sample g (used g) * real_of_int (high - low)\<rfloor>, g\<lparr>used := Suc (used g)\<rparr>)"
  by (simp add: randint_def rand_def)

lemma random_channels_rng:
  "snd (random_channels cs g) = g\<lparr>used := used g + length cs\<rparr>"
  by (induction cs arbitrary: g) (simp_all add: randint_eq case_prod_beta)

lemma get_random_color_rng:
  "snd (get_random_color base_rgb g) = g\<lparr>used := used g + length base_rgb\<rparr>"
  by (simp add: get_random_color_def case_prod_beta random_channels_rng)

lemma unit_draws_used [simp]: "unit_draws (g\<lparr>used := n\<rparr>) = unit_draws g"
  by (simp add: unit_draws_def)

lemma unit_draws_bounds: "unit_draws g \<Longrightarrow> 0 \<le> sample g n \<and> sample g n < 1"
  by (simp add: unit_draws_def)

lemma uniform_range:
  assumes "unit_draws g" and "low < high"
  shows "low \<le> fst (uniform low high g)" and "fst (uniform low high g) < high"
proof -
  from assms(1) have u: "0 \<le> sample g (used g)" "sample g (used g) < 1"
    by (simp_all add: unit_draws_bounds)
  from u(1) assms(2) show "low \<le> fst (uniform low high g)"
    by (simp add: uniform_eq)
  have "(high - low) * sample g (used g) < (high - low) * 1"
    using u(2) assms(2) by (intro mult_strict_left_mono) simp_all
  then show "fst (uniform low high g) < high"
    by (simp add: uniform_eq)
qed

lemma uniform_rng: "snd (uniform low high g) = g\<lparr>used := Suc (used g)\<rparr>"
  by (simp add: uniform_eq)

lemma stack_on_top_solid_props:
  assumes "solid b" and "solid t"
  shows "\<exists>moved. stack_on_top b t ov = Inr moved \<and> solid moved
           \<and> z_min moved = z_max b - ov
           \<and> z_max moved = z_max t + (z_max b - ov - z_min t)
           \<and> faces moved = faces t \<and> face_colors moved = face_colors t"
  using assms
  by (simp add: stack_on_top_solid z_min_apply_translation z_max_apply_translation
      solid_vertices zc_def)

lemma z_min_le_z_max: "vertices m \<noteq> [] \<Longrightarrow> z_min m \<le> z_max m"
  by (simp add: z_min_def z_max_def Min_le_iff)

text \<open>
  Stacking reads the current extent of the top mesh, so the place of the stacked mesh
  does not depend on where the library anchors a primitive along Z.
\<close>

lemma apply_translation_twice:
  "apply_translation (apply_translation m (0, 0, a)) (0, 0, b)
   = apply_translation m (0, 0, a + b)"
  by (simp add: apply_translation_def translate_def xc_def yc_def zc_def)

lemma stack_on_top_ignores_anchor:
  assumes "solid bottom_mesh" and "solid top_mesh"
  shows "stack_on_top bottom_mesh (apply_translation top_mesh (0, 0, d)) overlap
         = stack_on_top bottom_mesh top_mesh overlap"
proof -
  have "d + (z_max bottom_mesh - overlap - (z_min top_mesh + d))
        = z_max bottom_mesh - overlap - z_min top_mesh"
    by simp
  then show ?thesis
    using assms
    by (simp only: stack_on_top_solid solid_apply_translation z_min_apply_translation
        solid_vertices apply_translation_twice zc_def snd_conv not_False_eq_True)
qed

section \<open>Archetype selection\<close>

lemma choose_archetype_iff:
  "(choose_archetype rnd = Roundy \<longleftrightarrow> rnd < 0.4)"
  "(choose_archetype rnd = Pointy \<longleftrightarrow> 0.4 \<le> rnd \<and> rnd < 0.75)"
  "(choose_archetype rnd = Stacked \<longleftrightarrow> 0.75 \<le> rnd)"
  by (auto simp: choose_archetype_def)

lemma count_interval:
  "length (filter (\<lambda>k. a \<le> k \<and> k < b) [0..<n]) = min b n - a"
proof -
  have "{i. i < n \<and> a \<le> i \<and> i < b} = {a..<min b n}" by auto
  then show ?thesis by (simp add: length_filter_conv_card cong: conj_cong)
qed

lemma grid_count_interval:
  assumes "\<And>k. k < n \<Longrightarrow> (choose_archetype (real k / real n) = a) = (lo \<le> k \<and> k < hi)"
  shows "grid_count a n = min hi n - lo"
proof -
  have "filter (\<lambda>k. choose_archetype (real k / real n) = a) [0..<n]
        = filter (\<lambda>k. lo \<le> k \<and> k < hi) [0..<n]"
    using assms by (intro filter_cong) simp_all
  then show ?thesis by (simp only: grid_count_def count_interval)
qed

lemma grid_Roundy: "grid_count Roundy (20 * m) = 8 * m"
proof -
  have "\<And>k. k < 20 * m \<Longrightarrow>
      (choose_archetype (real k / real (20 * m)) = Roundy) = (0 \<le> k \<and> k < 8 * m)"
    by (simp add: choose_archetype_iff field_simps) linarith
  from grid_count_interval [OF this] show ?thesis by simp
qed

lemma grid_Pointy: "grid_count Pointy (20 * m) = 7 * m"
proof -
  have "\<And>k. k < 20 * m \<Longrightarrow>
      (choose_archetype (real k / real (20 * m)) = Pointy) = (8 * m \<le> k \<and> k < 15 * m)"
    by (simp add: choose_archetype_iff field_simps) linarith
  from grid_count_interval [OF this] show ?thesis by simp
qed

lemma grid_Stacked: "grid_count Stacked (20 * m) = 5 * m"
proof -
  have "\<And>k. k < 20 * m \<Longrightarrow>
      (choose_archetype (real k / real (20 * m)) = Stacked) = (15 * m \<le> k \<and> k < 20 * m)"
    by (simp add: choose_archetype_iff field_simps) linarith
  from grid_count_interval [OF this] show ?thesis by simp
qed

lemma make_tree_eq:
  "make_tree lib pos g =
     (case choose_archetype (sample g (used g)) of
        Roundy \<Rightarrow> create_roundy_tree lib pos (g\<lparr>used := Suc (used g)\<rparr>)
      | Pointy \<Rightarrow> create_pointy_tree lib pos (g\<lparr>used := Suc (used g)\<rparr>)
      | Stacked \<Rightarrow> create_stacked_tree lib pos (g\<lparr>used := Suc (used g)\<rparr>))"
  by (simp add: make_tree_def rand_def)

section \<open>The parts of a tree\<close>

lemma one_color_per_face_set [simp]: "one_color_per_face (set_face_colors m c)"
  by (simp add: one_color_per_face_def)

lemma one_color_per_face_translation [simp]:
  "one_color_per_face (apply_translation m t) = one_color_per_face m"
  by (simp add: one_color_per_face_def)

lemma one_color_per_face_create_trunk [simp]:
  "one_color_per_face (create_trunk lib height radius)"
  by (simp add: create_trunk_eq)

lemma one_color_per_face_stack:
  "stack_on_top b t ov = Inr moved \<Longrightarrow> one_color_per_face t \<Longrightarrow> one_color_per_face moved"
  using stack_on_top_vertices [of b t ov moved] by auto

lemma roundy_parts_unfold:
  "roundy_parts lib g =
     (case stack_on_top
             (create_trunk lib (fst (uniform 3 6 g)) 0.7)
             (set_face_colors
                (icosphere lib 1 (fst (uniform 2.5 4.5 (snd (uniform 3 6 g)))))
                (fst (get_random_color [124, 204, 57]
                        (snd (uniform 2.5 4.5 (snd (uniform 3 6 g)))))))
             OVERLAP_AMOUNT of
        Inl e \<Rightarrow> Inl e
      | Inr crown \<Rightarrow>
          Inr (create_trunk lib (fst (uniform 3 6 g)) 0.7, crown,
               snd (get_random_color [124, 204, 57]
                      (snd (uniform 2.5 4.5 (snd (uniform 3 6 g)))))))"
  unfolding roundy_parts_def Let_def case_prod_beta by (rule refl)

lemma pointy_parts_unfold:
  "pointy_parts lib g =
     (case stack_on_top
             (create_trunk lib (fst (uniform 2 4 g)) 0.6)
             (set_face_colors
                (cone lib (fst (uniform 2.5 4.0 (snd (uniform 6 10 (snd (uniform 2 4 g))))))
                   (fst (uniform 6 10 (snd (uniform 2 4 g)))) 6)
                (fst (get_random_color [34, 139, 34]
                        (snd (uniform 2.5 4.0 (snd (uniform 6 10 (snd (uniform 2 4 g)))))))))
             OVERLAP_AMOUNT of
        Inl e \<Rightarrow> Inl e
      | Inr crown \<Rightarrow>
          Inr (create_trunk lib (fst (uniform 2 4 g)) 0.6, crown,
               snd (get_random_color [34, 139, 34]
                      (snd (uniform 2.5 4.0 (snd (uniform 6 10 (snd (uniform 2 4 g)))))))))"
  unfolding pointy_parts_def Let_def case_prod_beta by (rule refl)

lemma unit_draws_uniform: "unit_draws (snd (uniform low high g)) = unit_draws g"
  by (simp add: uniform_rng)

lemma unit_draws_get_random_color:
  "unit_draws (snd (get_random_color base_rgb g)) = unit_draws g"
  by (simp add: get_random_color_rng)

lemma trunk_props:
  assumes "creation_contract lib" and "0 < height" and "0 < radius"
  shows "solid (create_trunk lib height radius)"
    and "z_min (create_trunk lib height radius) = 0"
    and "z_max (create_trunk lib height radius) = height"
proof -
  from assms have c: "centred_cylinder lib radius height 5"
    by (simp add: creation_contract_def)
  from create_trunk_extent [OF c]
  show "solid (create_trunk lib height radius)"
    and "z_min (create_trunk lib height radius) = 0"
    and "z_max (create_trunk lib height radius) = height" by simp_all
qed

lemma roundy_parts_ok:
  assumes lib: "creation_contract lib" and g: "unit_draws g"
  shows "\<exists>trunk crown g1. roundy_parts lib g = Inr (trunk, crown, g1)
           \<and> solid trunk \<and> solid crown \<and> z_min trunk = 0
           \<and> z_max trunk = fst (uniform 3 6 g) \<and> 3 \<le> z_max trunk
           \<and> z_min crown = z_max trunk - 0.5
           \<and> one_color_per_face trunk \<and> one_color_per_face crown \<and> unit_draws g1"
proof -
  let ?h = "fst (uniform 3 6 g)"
  let ?g1 = "snd (uniform 3 6 g)"
  let ?r = "fst (uniform 2.5 4.5 ?g1)"
  let ?g2 = "snd (uniform 2.5 4.5 ?g1)"
  let ?trunk = "create_trunk lib ?h 0.7"
  let ?crown = "set_face_colors (icosphere lib 1 ?r) (fst (get_random_color [124, 204, 57] ?g2))"
  have h: "3 \<le> ?h" using uniform_range(1) [OF g, of 3 6] by simp
  have g1: "unit_draws ?g1" using g by (simp add: unit_draws_uniform)
  have r: "0 < ?r" using uniform_range(1) [OF g1, of "2.5" "4.5"] by simp
  have t: "solid ?trunk" "z_min ?trunk = 0" "z_max ?trunk = ?h"
    using trunk_props [OF lib, of ?h "0.7"] h by simp_all
  have c: "solid ?crown" using lib r by (simp add: creation_contract_def)
  from stack_on_top_solid_props [OF t(1) c, of OVERLAP_AMOUNT] obtain moved where
    m: "stack_on_top ?trunk ?crown OVERLAP_AMOUNT = Inr moved" "solid moved"
       "z_min moved = z_max ?trunk - OVERLAP_AMOUNT" "face_colors moved = face_colors ?crown"
       "faces moved = faces ?crown"
    by blast
  have "one_color_per_face moved" using m(4,5) by (simp add: one_color_per_face_def)
  moreover have "unit_draws (snd (get_random_color [124, 204, 57] ?g2))"
    using g by (simp add: unit_draws_get_random_color unit_draws_uniform)
  ultimately show ?thesis
    using m(1,2,3) t h by (simp add: roundy_parts_unfold OVERLAP_AMOUNT_def)
qed

lemma pointy_parts_ok:
  assumes lib: "creation_contract lib" and g: "unit_draws g"
  shows "\<exists>trunk crown g1. pointy_parts lib g = Inr (trunk, crown, g1)
           \<and> solid trunk \<and> solid crown \<and> z_min trunk = 0
           \<and> z_max trunk = fst (uniform 2 4 g) \<and> 2 \<le> z_max trunk
           \<and> z_min crown = z_max trunk - 0.5
           \<and> one_color_per_face trunk \<and> one_color_per_face crown \<and> unit_draws g1"
proof -
  let ?h = "fst (uniform 2 4 g)"
  let ?g1 = "snd (uniform 2 4 g)"
  let ?hc = "fst (uniform 6 10 ?g1)"
  let ?g2 = "snd (uniform 6 10 ?g1)"
  let ?r = "fst (uniform 2.5 4.0 ?g2)"
  let ?g3 = "snd (uniform 2.5 4.0 ?g2)"
  let ?trunk = "create_trunk lib ?h 0.6"
  let ?crown = "set_face_colors (cone lib ?r ?hc 6) (fst (get_random_color [34, 139, 34] ?g3))"
  have h: "2 \<le> ?h" using uniform_range(1) [OF g, of 2 4] by simp
  have g1: "unit_draws ?g1" using g by (simp add: unit_draws_uniform)
  have hc: "0 < ?hc" using uniform_range(1) [OF g1, of 6 10] by simp
  have g2: "unit_draws ?g2" using g1 by (simp add: unit_draws_uniform)
  have r: "0 < ?r" using uniform_range(1) [OF g2, of "2.5" "4.0"] by simp
  have t: "solid ?trunk" "z_min ?trunk = 0" "z_max ?trunk = ?h"
    using trunk_props [OF lib, of ?h "0.6"] h by simp_all
  have c: "solid ?crown" using lib r hc by (simp add: creation_contract_def)
  from stack_on_top_solid_props [OF t(1) c, of OVERLAP_AMOUNT] obtain moved where
    m: "stack_on_top ?trunk ?crown OVERLAP_AMOUNT = Inr moved" "solid moved"
       "z_min moved = z_max ?trunk - OVERLAP_AMOUNT" "face_colors moved = face_colors ?crown"
       "faces moved = faces ?crown"
    by blast
  have "one_color_per_face moved" using m(4,5) by (simp add: one_color_per_face_def)
  moreover have "unit_draws (snd (get_random_color [34, 139, 34] ?g3))"
    using g2 by (simp add: unit_draws_get_random_color unit_draws_uniform)
  ultimately show ?thesis
    using m(1,2,3) t h by (simp add: pointy_parts_unfold OVERLAP_AMOUNT_def)
qed

lemma stacked_parts_unfold:
  "stacked_parts lib g =
     (let g1 = snd (uniform 2 3 g);
          g2 = snd (uniform 3 5 g1);
          g3 = snd (uniform 3 4 g2);
          g4 = snd (get_random_color [46, 139, 87] g3);
          g5 = snd (uniform 2 4 g4);
          g6 = snd (get_random_color [143, 188, 143] g5);
          trunk = create_trunk lib (fst (uniform 2 3 g)) 0.7
      in case stack_on_top trunk
                (set_face_colors (cone lib (fst (uniform 3 4 g2)) (fst (uniform 3 5 g1)) 7)
                   (fst (get_random_color [46, 139, 87] g3)))
                OVERLAP_AMOUNT of
           Inl e \<Rightarrow> Inl e
         | Inr c1 \<Rightarrow>
             (case stack_on_top c1
                     (set_face_colors (cone lib 2.0 (fst (uniform 2 4 g4)) 7)
                        (fst (get_random_color [143, 188, 143] g5)))
                     OVERLAP_AMOUNT of
                Inl e \<Rightarrow> Inl e
              | Inr c2 \<Rightarrow> Inr (trunk, c1, c2, g6)))"
  unfolding stacked_parts_def Let_def case_prod_beta by (rule refl)

lemma stacked_parts_ok:
  assumes lib: "creation_contract lib" and g: "unit_draws g"
  shows "\<exists>trunk c1 c2 g1. stacked_parts lib g = Inr (trunk, c1, c2, g1)
           \<and> solid trunk \<and> solid c1 \<and> solid c2 \<and> z_min trunk = 0
           \<and> z_max trunk = fst (uniform 2 3 g) \<and> 2 \<le> z_max trunk
           \<and> z_min c1 = z_max trunk - 0.5 \<and> z_min c2 = z_max c1 - 0.5
           \<and> one_color_per_face trunk \<and> one_color_per_face c1 \<and> one_color_per_face c2
           \<and> unit_draws g1"
proof -
  let ?h = "fst (uniform 2 3 g)"
  let ?g1 = "snd (uniform 2 3 g)"
  let ?h1 = "fst (uniform 3 5 ?g1)"
  let ?g2 = "snd (uniform 3 5 ?g1)"
  let ?r1 = "fst (uniform 3 4 ?g2)"
  let ?g3 = "snd (uniform 3 4 ?g2)"
  let ?g4 = "snd (get_random_color [46, 139, 87] ?g3)"
  let ?h2 = "fst (uniform 2 4 ?g4)"
  let ?g5 = "snd (uniform 2 4 ?g4)"
  let ?g6 = "snd (get_random_color [143, 188, 143] ?g5)"
  let ?trunk = "create_trunk lib ?h 0.7"
  let ?c1 = "set_face_colors (cone lib ?r1 ?h1 7) (fst (get_random_color [46, 139, 87] ?g3))"
  let ?c2 = "set_face_colors (cone lib 2.0 ?h2 7) (fst (get_random_color [143, 188, 143] ?g5))"
  have h: "2 \<le> ?h" using uniform_range(1) [OF g, of 2 3] by simp
  have g1: "unit_draws ?g1" using g by (simp add: unit_draws_uniform)
  have h1: "0 < ?h1" using uniform_range(1) [OF g1, of 3 5] by simp
  have g2: "unit_draws ?g2" using g1 by (simp add: unit_draws_uniform)
  have r1: "0 < ?r1" using uniform_range(1) [OF g2, of 3 4] by simp
  have g4: "unit_draws ?g4"
    using g2 by (simp add: unit_draws_get_random_color unit_draws_uniform)
  have h2: "0 < ?h2" using uniform_range(1) [OF g4, of 2 4] by simp
  have g6: "unit_draws ?g6"
    using g4 by (simp add: unit_draws_get_random_color unit_draws_uniform)
  have t: "solid ?trunk" "z_min ?trunk = 0" "z_max ?trunk = ?h"
    using trunk_props [OF lib, of ?h "0.7"] h by simp_all
  have c1: "solid ?c1" using lib r1 h1 by (simp add: creation_contract_def)
  have c2: "solid ?c2" using lib h2 by (simp add: creation_contract_def)
  from stack_on_top_solid_props [OF t(1) c1, of OVERLAP_AMOUNT] obtain m1 where
    m1: "stack_on_top ?trunk ?c1 OVERLAP_AMOUNT = Inr m1" "solid m1"
       "z_min m1 = z_max ?trunk - OVERLAP_AMOUNT" "face_colors m1 = face_colors ?c1"
       "faces m1 = faces ?c1"
    by blast
  from stack_on_top_solid_props [OF m1(2) c2, of OVERLAP_AMOUNT] obtain m2 where
    m2: "stack_on_top m1 ?c2 OVERLAP_AMOUNT = Inr m2" "solid m2"
       "z_min m2 = z_max m1 - OVERLAP_AMOUNT" "face_colors m2 = face_colors ?c2"
       "faces m2 = faces ?c2"
    by blast
  have o1: "one_color_per_face m1" using m1(4,5) by (simp add: one_color_per_face_def)
  have o2: "one_color_per_face m2" using m2(4,5) by (simp add: one_color_per_face_def)
  have "stacked_parts lib g = Inr (?trunk, m1, m2, ?g6)"
    by (simp only: stacked_parts_unfold Let_def m1(1) m2(1) sum.case)
  then show ?thesis
    using m1(2,3) m2(2,3) t h o1 o2 g6 by (simp add: OVERLAP_AMOUNT_def)
qed

lemma vertices_concatenate [simp]: "vertices (concatenate ms) = concat (map vertices ms)"
  by (simp add: concatenate_def)

lemma face_colors_concatenate [simp]:
  "face_colors (concatenate ms) = concat (map face_colors ms)"
  by (simp add: concatenate_def)

lemma faces_concatenate [simp]: "faces (concatenate ms) = append_faces 0 ms"
  by (simp add: concatenate_def)

lemma length_append_faces:
  "length (append_faces k ms) = sum_list (map (\<lambda>m. length (faces m)) ms)"
  by (induction ms arbitrary: k) simp_all

lemma one_color_per_face_concatenate:
  "(\<forall>m\<in>set ms. one_color_per_face m) \<Longrightarrow> one_color_per_face (concatenate ms)"
  by (induction ms)
     (simp_all add: one_color_per_face_def length_append_faces length_concat comp_def)

lemma z_min_concatenate2:
  assumes "vertices a \<noteq> []" and "vertices b \<noteq> []"
  shows "z_min (concatenate [a, b]) = min (z_min a) (z_min b)"
  using assms by (simp add: z_min_def image_Un Min_Un)

lemma z_min_concatenate3:
  assumes "vertices a \<noteq> []" and "vertices b \<noteq> []" and "vertices c \<noteq> []"
  shows "z_min (concatenate [a, b, c]) = min (z_min a) (min (z_min b) (z_min c))"
  using assms by (simp add: z_min_def image_Un Min_Un)

section \<open>Trees and the forest\<close>

lemma roundy_parts_colors:
  assumes "roundy_parts lib g = Inr (trunk, crown, g1)"
  shows "one_color_per_face trunk \<and> one_color_per_face crown"
  using assms unfolding roundy_parts_unfold
  by (auto split: sum.splits dest: one_color_per_face_stack)

lemma pointy_parts_colors:
  assumes "pointy_parts lib g = Inr (trunk, crown, g1)"
  shows "one_color_per_face trunk \<and> one_color_per_face crown"
  using assms unfolding pointy_parts_unfold
  by (auto split: sum.splits dest: one_color_per_face_stack)

lemma stacked_parts_colors:
  assumes "stacked_parts lib g = Inr (trunk, c1, c2, g1)"
  shows "one_color_per_face trunk \<and> one_color_per_face c1 \<and> one_color_per_face c2"
  using assms unfolding stacked_parts_unfold Let_def
  by (auto split: sum.splits dest: one_color_per_face_stack)

lemma create_roundy_tree_colors:
  assumes "create_roundy_tree lib pos g = Inr (tree, g1)"
  shows "one_color_per_face tree"
  using assms
  by (auto simp: create_roundy_tree_def one_color_per_face_concatenate
      split: sum.splits dest!: roundy_parts_colors)

lemma create_pointy_tree_colors:
  assumes "create_pointy_tree lib pos g = Inr (tree, g1)"
  shows "one_color_per_face tree"
  using assms
  by (auto simp: create_pointy_tree_def one_color_per_face_concatenate
      split: sum.splits dest!: pointy_parts_colors)

lemma create_stacked_tree_colors:
  assumes "create_stacked_tree lib pos g = Inr (tree, g1)"
  shows "one_color_per_face tree"
  using assms
  by (auto simp: create_stacked_tree_def one_color_per_face_concatenate
      split: sum.splits dest!: stacked_parts_colors)

lemma make_tree_colors:
  assumes "make_tree lib pos g = Inr (tree, g1)"
  shows "one_color_per_face tree"
  using assms unfolding make_tree_eq
  by (auto split: archetype.splits
      dest: create_roundy_tree_colors create_pointy_tree_colors create_stacked_tree_colors)

lemma grow_colors:
  "grow lib positions g = Inr (meshes, g1) \<Longrightarrow> \<forall>m\<in>set meshes. one_color_per_face m"
proof (induction positions arbitrary: g meshes g1)
  case Nil
  then show ?case by simp
next
  case (Cons p positions)
  from Cons.prems obtain tree g2 rest where
    t: "make_tree lib (fst p, snd p, 0) g = Inr (tree, g2)"
    and r: "grow lib positions g2 = Inr (rest, g1)" and m: "meshes = tree # rest"
    by (auto split: sum.splits)
  from make_tree_colors [OF t] Cons.IH [OF r] m show ?case by simp
qed

lemma forest_mesh_colors:
  assumes "forest_mesh lib n_trees plot_size g = Inr forest"
  shows "one_color_per_face forest"
  using assms
  by (auto simp: forest_mesh_def case_prod_beta one_color_per_face_concatenate
      split: sum.splits dest: grow_colors)

lemma create_roundy_tree_ok:
  assumes lib: "creation_contract lib" and g: "unit_draws g"
  shows "\<exists>tree g1. create_roundy_tree lib (px, py, 0) g = Inr (tree, g1)
           \<and> vertices tree \<noteq> [] \<and> z_min tree = 0 \<and> unit_draws g1"
proof -
  from roundy_parts_ok [OF lib g] obtain trunk crown g1 where
    p: "roundy_parts lib g = Inr (trunk, crown, g1)" "solid trunk" "solid crown"
       "z_min trunk = 0" "3 \<le> z_max trunk" "z_min crown = z_max trunk - 0.5" "unit_draws g1"
    by blast
  have "z_min (concatenate [trunk, crown]) = 0"
    using p by (simp add: z_min_concatenate2 solid_vertices)
  then have "z_min (apply_translation (concatenate [trunk, crown]) (px, py, 0)) = 0"
    using p(2) by (simp add: z_min_apply_translation solid_vertices zc_def)
  then show ?thesis
    using p(1,2,7) by (simp add: create_roundy_tree_def solid_vertices)
qed

lemma create_pointy_tree_ok:
  assumes lib: "creation_contract lib" and g: "unit_draws g"
  shows "\<exists>tree g1. create_pointy_tree lib (px, py, 0) g = Inr (tree, g1)
           \<and> vertices tree \<noteq> [] \<and> z_min tree = 0 \<and> unit_draws g1"
proof -
  from pointy_parts_ok [OF lib g] obtain trunk crown g1 where
    p: "pointy_parts lib g = Inr (trunk, crown, g1)" "solid trunk" "solid crown"
       "z_min trunk = 0" "2 \<le> z_max trunk" "z_min crown = z_max trunk - 0.5" "unit_draws g1"
    by blast
  have "z_min (concatenate [trunk, crown]) = 0"
    using p by (simp add: z_min_concatenate2 solid_vertices)
  then have "z_min (apply_translation (concatenate [trunk, crown]) (px, py, 0)) = 0"
    using p(2) by (simp add: z_min_apply_translation solid_vertices zc_def)
  then show ?thesis
    using p(1,2,7) by (simp add: create_pointy_tree_def solid_vertices)
qed

lemma create_stacked_tree_ok:
  assumes lib: "creation_contract lib" and g: "unit_draws g"
  shows "\<exists>tree g1. create_stacked_tree lib (px, py, 0) g = Inr (tree, g1)
           \<and> vertices tree \<noteq> [] \<and> z_min tree = 0 \<and> unit_draws g1"
proof -
  from stacked_parts_ok [OF lib g] obtain trunk c1 c2 g1 where
    p: "stacked_parts lib g = Inr (trunk, c1, c2, g1)" "solid trunk" "solid c1" "solid c2"
       "z_min trunk = 0" "2 \<le> z_max trunk" "z_min c1 = z_max trunk - 0.5"
       "z_min c2 = z_max c1 - 0.5" "unit_draws g1"
    by blast
  have "z_min c1 \<le> z_max c1" using p(3) by (simp add: z_min_le_z_max solid_vertices)
  then have "z_min (concatenate [trunk, c1, c2]) = 0"
    using p by (simp add: z_min_concatenate3 solid_vertices)
  then have "z_min (apply_translation (concatenate [trunk, c1, c2]) (px, py, 0)) = 0"
    using p(2) by (simp add: z_min_apply_translation solid_vertices zc_def)
  then show ?thesis
    using p(1,2,9) by (simp add: create_stacked_tree_def solid_vertices)
qed

lemma make_tree_ok:
  assumes lib: "creation_contract lib" and g: "unit_draws g"
  shows "\<exists>tree g1. make_tree lib (px, py, 0) g = Inr (tree, g1)
           \<and> vertices tree \<noteq> [] \<and> z_min tree = 0 \<and> unit_draws g1"
proof -
  have g1: "unit_draws (g\<lparr>used := Suc (used g)\<rparr>)" using g by simp
  show ?thesis
    unfolding make_tree_eq
    using create_roundy_tree_ok [OF lib g1] create_pointy_tree_ok [OF lib g1]
      create_stacked_tree_ok [OF lib g1]
    by (cases "choose_archetype (sample g (used g))") simp_all
qed

lemma grow_ok:
  assumes lib: "creation_contract lib"
  shows "unit_draws g \<Longrightarrow>
         \<exists>meshes g1. grow lib positions g = Inr (meshes, g1)
           \<and> length meshes = length positions
           \<and> (\<forall>m\<in>set meshes. vertices m \<noteq> [] \<and> z_min m = 0) \<and> unit_draws g1"
proof (induction positions arbitrary: g)
  case Nil
  then show ?case by simp
next
  case (Cons p positions)
  from make_tree_ok [OF lib Cons.prems, of "fst p" "snd p"] obtain tree g1 where
    t: "make_tree lib (fst p, snd p, 0) g = Inr (tree, g1)" "vertices tree \<noteq> []"
       "z_min tree = 0" "unit_draws g1"
    by blast
  from Cons.IH [OF t(4)] obtain meshes g2 where
    r: "grow lib positions g1 = Inr (meshes, g2)" "length meshes = length positions"
       "\<forall>m\<in>set meshes. vertices m \<noteq> [] \<and> z_min m = 0" "unit_draws g2"
    by blast
  from t r show ?case by simp
qed

lemma uniform_rows_rng:
  "snd (uniform_rows n low high g) = g\<lparr>used := used g + 2 * n\<rparr>"
  by (induction n arbitrary: g) (simp_all add: uniform_eq case_prod_beta)

lemma length_uniform_rows: "length (fst (uniform_rows n low high g)) = n"
  by (induction n arbitrary: g) (simp_all add: case_prod_beta)

lemma forest_mesh_ok:
  assumes lib: "creation_contract lib" and g: "unit_draws g"
  shows "\<exists>meshes. forest_mesh lib n_trees plot_size g = Inr (concatenate meshes)
           \<and> length meshes = n_trees
           \<and> (\<forall>m\<in>set meshes. vertices m \<noteq> [] \<and> z_min m = 0)"
proof -
  let ?lo = "- (real_of_int plot_size / 2)"
  let ?hi = "real_of_int plot_size / 2"
  have "unit_draws (snd (uniform_rows n_trees ?lo ?hi g))"
    using g by (simp add: uniform_rows_rng)
  from grow_ok [OF lib this, of "fst (uniform_rows n_trees ?lo ?hi g)"]
  show ?thesis
    by (auto simp: forest_mesh_def case_prod_beta length_uniform_rows)
qed

lemma above_ground:
  assumes "\<forall>m\<in>set meshes. vertices m \<noteq> [] \<and> z_min m = 0"
    and "v \<in> set (vertices (concatenate meshes))"
  shows "0 \<le> zc v"
proof -
  from assms(2) obtain m where m: "m \<in> set meshes" "v \<in> set (vertices m)" by auto
  with assms(1) have "z_min m = 0" by blast
  moreover have "z_min m \<le> zc v" using m(2) by (simp add: z_min_def)
  ultimately show ?thesis by simp
qed

lemma constant_rng_unit: "unit_draws (constant_rng (1 / 2))"
  by (simp add: unit_draws_def constant_rng_def)

lemma grow_length:
  "grow lib positions g = Inr (meshes, g1) \<Longrightarrow> length meshes = length positions"
proof (induction positions arbitrary: g meshes g1)
  case Nil
  then show ?case by simp
next
  case (Cons p positions)
  from Cons.prems obtain tree g2 rest where
    r: "grow lib positions g2 = Inr (rest, g1)" and m: "meshes = tree # rest"
    by (auto split: sum.splits)
  from Cons.IH [OF r] m show ?case by simp
qed


section \<open>The coarse instance\<close>

lemma solid_coarse_cylinder: "solid (coarse_cylinder 1 4 5)"
  by (simp add: solid_def coarse_cylinder_def faces_in_range_def referenced_vertices_def
      face_uses_def)

lemma solid_coarse_cone: "solid (coarse_cone 2 3 6)"
  by (simp add: solid_def coarse_cone_def faces_in_range_def referenced_vertices_def
      face_uses_def)

lemma stack_example:
  "stack_on_top (coarse_cylinder 1 4 5) (coarse_cone 2 3 6) (1 / 2)
   = Inr (apply_translation (coarse_cone 2 3 6) (0, 0, 3 / 2))"
  using solid_coarse_cylinder solid_coarse_cone
  by (simp add: stack_on_top_solid)
     (simp add: z_max_def z_min_def coarse_cylinder_def coarse_cone_def zc_def)

section \<open>Runs of the coarse instance\<close>

lemma coarse_cone_colors: "one_color_per_face (coarse_cone 2 3 6)"
  by (simp add: one_color_per_face_def coarse_cone_def)

lemma solid_coarse:
  "solid (coarse_cylinder radius height sections)"
  "solid (coarse_cone radius height sections)"
  "solid (coarse_icosphere subdivisions radius)"
  by (simp_all add: solid_def coarse_cylinder_def coarse_cone_def coarse_icosphere_def
      faces_in_range_def referenced_vertices_def face_uses_def)

lemma get_random_color_half:
  "get_random_color [a, b, c] \<lparr>sample = \<lambda>_. 1 / 2, used = n\<rparr>
   = ([clip a 0 255, clip b 0 255, clip c 0 255, 255],
      \<lparr>sample = \<lambda>_. 1 / 2, used = Suc (Suc (Suc n))\<rparr>)"
  by (simp add: get_random_color_def randint_eq variance_def)

lemma z_coarse_cone:
  "0 \<le> height \<Longrightarrow> z_min (coarse_cone radius height sections) = 0"
  "0 \<le> height \<Longrightarrow> z_max (coarse_cone radius height sections) = height"
  by (simp_all add: z_min_def z_max_def coarse_cone_def zc_def)

lemma z_coarse_trunk:
  "0 < height \<Longrightarrow> 0 < radius \<Longrightarrow> z_max (create_trunk coarse height radius) = height"
  by (rule trunk_props(3) [OF coarse_contract])

lemma stacked_example:
  "stacked_parts coarse (constant_rng (1 / 2))
   = Inr (create_trunk coarse (5 / 2) (7 / 10),
          apply_translation (set_face_colors (coarse_cone (7 / 2) 4 7) [46, 139, 87, 255])
            (0, 0, 2),
          apply_translation (set_face_colors (coarse_cone 2 3 7) [143, 188, 143, 255])
            (0, 0, 11 / 2),
          \<lparr>sample = \<lambda>_. 1 / 2, used = 10\<rparr>)"
proof -
  have t: "solid (create_trunk coarse (5 / 2) (7 / 10))"
    by (simp add: create_trunk_eq coarse_def solid_coarse)
  have 1: "stack_on_top (create_trunk coarse (5 / 2) (7 / 10))
             (set_face_colors (coarse_cone (7 / 2) 4 7) [46, 139, 87, 255]) (1 / 2)
           = Inr (apply_translation
                    (set_face_colors (coarse_cone (7 / 2) 4 7) [46, 139, 87, 255]) (0, 0, 2))"
    using t by (simp add: stack_on_top_solid solid_coarse z_coarse_cone z_coarse_trunk)
  have 2: "stack_on_top
             (apply_translation
                (set_face_colors (coarse_cone (7 / 2) 4 7) [46, 139, 87, 255]) (0, 0, 2))
             (set_face_colors (coarse_cone 2 3 7) [143, 188, 143, 255]) (1 / 2)
           = Inr (apply_translation
                    (set_face_colors (coarse_cone 2 3 7) [143, 188, 143, 255]) (0, 0, 11 / 2))"
    by (simp add: stack_on_top_solid solid_coarse z_coarse_cone z_max_apply_translation
        solid_vertices zc_def)
  show ?thesis
    by (simp add: stacked_parts_unfold Let_def uniform_eq constant_rng_def
        get_random_color_half
        clip_def OVERLAP_AMOUNT_def coarse_def [THEN arg_cong [where f = cone]] 1 2)
qed

section \<open>The figure\<close>

lemma trace_vertices_trees [simp]: "trace_vertices (trees_trace forest) = vertices forest"
proof -
  have "zip (map xc vs) (zip (map yc vs) (map zc vs)) = vs" for vs
    by (induction vs) (simp_all add: xc_def yc_def zc_def)
  then show ?thesis by (simp add: trace_vertices_def trees_trace_def)
qed

lemma trace_triangles_trees [simp]: "trace_triangles (trees_trace forest) = faces forest"
proof -
  have "zip (map (\<lambda>(a, b, c). a) fs)
          (zip (map (\<lambda>(a, b, c). b) fs) (map (\<lambda>(a, b, c). c) fs)) = fs"
    for fs :: "face list"
    by (induction fs) (simp_all add: case_prod_beta)
  then show ?thesis by (simp add: trace_triangles_def trees_trace_def)
qed

lemma forest_mesh_trees:
  assumes lib: "creation_contract lib" and g: "unit_draws g"
  shows "\<exists>meshes g2.
           grow lib (fst (uniform_rows n_trees (- (real_of_int plot_size / 2))
                            (real_of_int plot_size / 2) g))
             (snd (uniform_rows n_trees (- (real_of_int plot_size / 2))
                            (real_of_int plot_size / 2) g)) = Inr (meshes, g2)
           \<and> forest_mesh lib n_trees plot_size g = Inr (concatenate meshes)
           \<and> length meshes = n_trees
           \<and> (\<forall>m\<in>set meshes. vertices m \<noteq> [] \<and> z_min m = 0)"
proof -
  let ?lo = "- (real_of_int plot_size / 2)"
  let ?hi = "real_of_int plot_size / 2"
  have "unit_draws (snd (uniform_rows n_trees ?lo ?hi g))"
    using g by (simp add: uniform_rows_rng)
  from grow_ok [OF lib this, of "fst (uniform_rows n_trees ?lo ?hi g)"]
  show ?thesis
    by (auto simp: forest_mesh_def case_prod_beta length_uniform_rows)
qed

lemma figure_eq:
  "forest_mesh lib n_trees plot_size g = Inr forest \<Longrightarrow>
   figure lib n_trees plot_size g = Inr [trees_trace forest, ground_trace plot_size]"
  by (simp add: figure_def)

lemma ground_trace_geometry:
  "trace_vertices (ground_trace plot_size)
     = [(- (real_of_int plot_size / 1.8), - (real_of_int plot_size / 1.8), - 0.1),
        (real_of_int plot_size / 1.8, - (real_of_int plot_size / 1.8), - 0.1),
        (real_of_int plot_size / 1.8, real_of_int plot_size / 1.8, - 0.1),
        (- (real_of_int plot_size / 1.8), real_of_int plot_size / 1.8, - 0.1)]"
  "trace_triangles (ground_trace plot_size) = [(0, 1, 2), (0, 2, 3)]"
  "trace_color (ground_trace plot_size) = Some ''rgb(160, 200, 120)''"
  "trace_facecolor (ground_trace plot_size) = None"
  by (simp_all add: ground_trace_def trace_vertices_def trace_triangles_def)

section \<open>Stacking: the gap, the frame\<close>

text \<open>
  Claim C1. For solids \<open>bottom_mesh\<close> and \<open>top_mesh\<close> and any overlap (in particular any
  overlap \<open>\<ge> 0\<close>), \<open>stack_on_top\<close> returns the top mesh translated along Z by
  \<open>(max Z of bottom - overlap) - (min Z of top)\<close>, and afterwards the minimum Z over the
  top's vertices equals the maximum Z over the bottom's vertices minus the overlap.
  Coordinates are exact reals, so the equality holds with error 0, within any tolerance.
\<close>

theorem stack_on_top_gap:
  assumes "solid bottom_mesh" and "solid top_mesh"
  shows "\<exists>moved. stack_on_top bottom_mesh top_mesh overlap = Inr moved
           \<and> moved = apply_translation top_mesh
                       (0, 0, (z_max bottom_mesh - overlap) - z_min top_mesh)
           \<and> z_min moved = z_max bottom_mesh - overlap"
proof -
  from assms(2) have "vertices top_mesh \<noteq> []" by (simp add: solid_def)
  then show ?thesis
    using assms by (simp add: stack_on_top_solid z_min_apply_translation zc_def)
qed

theorem stack_on_top_gap_witness:
  "solid (coarse_cylinder 1 4 5) \<and> solid (coarse_cone 2 3 6)
   \<and> (\<exists>moved. stack_on_top (coarse_cylinder 1 4 5) (coarse_cone 2 3 6) (1 / 2) = Inr moved
         \<and> z_min moved = 3 / 2)"
proof -
  have b: "solid (coarse_cylinder 1 4 5)" by (rule solid_coarse_cylinder)
  have t: "solid (coarse_cone 2 3 6)" by (rule solid_coarse_cone)
  have "z_max (coarse_cylinder 1 4 5) = 2"
    by (simp add: z_max_def coarse_cylinder_def zc_def)
  with stack_on_top_gap [OF b t, of "1 / 2"] b t show ?thesis by auto
qed

text \<open>
  Claim C3. When \<open>stack_on_top\<close> returns, the top mesh has the same vertices in the same
  order with the X and Y coordinate of every vertex unchanged; only Z moved, by one
  common shift.
\<close>

theorem stack_on_top_keeps_xy:
  assumes "stack_on_top bottom_mesh top_mesh overlap = Inr moved"
  shows "map xc (vertices moved) = map xc (vertices top_mesh)
         \<and> map yc (vertices moved) = map yc (vertices top_mesh)
         \<and> (\<exists>shift_z. map zc (vertices moved)
                        = map (\<lambda>v. zc v + shift_z) (vertices top_mesh))"
proof -
  from stack_on_top_vertices [OF assms] obtain shift_z
    where m: "moved = apply_translation top_mesh (0, 0, shift_z)" by blast
  have "map zc (vertices moved) = map (\<lambda>v. zc v + shift_z) (vertices top_mesh)"
    by (simp add: m) (simp add: zc_def)
  moreover have "map xc (vertices moved) = map xc (vertices top_mesh)"
    by (simp add: m) (simp add: xc_def)
  moreover have "map yc (vertices moved) = map yc (vertices top_mesh)"
    by (simp add: m) (simp add: yc_def)
  ultimately show ?thesis by blast
qed

theorem stack_on_top_keeps_xy_witness:
  "stack_on_top (coarse_cylinder 1 4 5) (coarse_cone 2 3 6) (1 / 2)
     = Inr (apply_translation (coarse_cone 2 3 6) (0, 0, 3 / 2))
   \<and> map xc (vertices (apply_translation (coarse_cone 2 3 6) (0, 0, 3 / 2))) = [2, - 2, 0, 0]
   \<and> map yc (vertices (apply_translation (coarse_cone 2 3 6) (0, 0, 3 / 2))) = [0, 0, 2, 0]"
proof -
  have "map xc (vertices (coarse_cone 2 3 6)) = [2, - 2, 0, 0]"
    and "map yc (vertices (coarse_cone 2 3 6)) = [0, 0, 2, 0]"
    by (simp_all add: coarse_cone_def xc_def yc_def)
  with stack_on_top_keeps_xy [OF stack_example] stack_example show ?thesis by simp
qed

text \<open>
  Claim C9. A call of \<open>stack_on_top\<close> on two distinct objects leaves the bottom object
  as it was (its vertices, triangles and colours), and every object other than the top
  one.
\<close>

theorem stack_on_top_obj_frame:
  assumes "bottom_ref \<noteq> top_ref"
    and "stack_on_top_obj s bottom_ref top_ref overlap = Inr s'"
  shows "s' bottom_ref = s bottom_ref \<and> (\<forall>r. r \<noteq> top_ref \<longrightarrow> s' r = s r)"
  using assms by (auto simp: stack_on_top_obj_def split: sum.splits)

theorem stack_on_top_obj_frame_witness:
  "(0::nat) \<noteq> 1
   \<and> stack_on_top_obj two_objects 0 1 (1 / 2)
       = Inr (two_objects(1 := apply_translation (coarse_cone 2 3 6) (0, 0, 3 / 2)))
   \<and> (two_objects(1 := apply_translation (coarse_cone 2 3 6) (0, 0, 3 / 2))) 0
       = coarse_cylinder 1 4 5"
proof -
  have ne: "(0::nat) \<noteq> 1" by simp
  have run: "stack_on_top_obj two_objects 0 1 (1 / 2)
       = Inr (two_objects(1 := apply_translation (coarse_cone 2 3 6) (0, 0, 3 / 2)))"
    by (simp add: stack_on_top_obj_def two_objects_def stack_example)
  from stack_on_top_obj_frame [OF ne run] run show ?thesis
    by (simp add: two_objects_def)
qed

section \<open>The trunk\<close>

text \<open>
  Claim C4. For every height > 0 and radius > 0, given the library's cylinder centred at
  the origin, \<open>create_trunk\<close> returns the library's cylinder of 5 sections moved up by
  half its height: its lowest vertex is at Z = 0, its highest at Z = height, and every
  triangle has the colour (101, 67, 33, 255).
\<close>

theorem create_trunk_anchored:
  assumes "0 < height" and "0 < radius" and "creation_contract lib"
  shows "z_min (create_trunk lib height radius) = 0
         \<and> z_max (create_trunk lib height radius) = height
         \<and> faces (create_trunk lib height radius) = faces (cylinder lib radius height 5)
         \<and> vertices (create_trunk lib height radius)
             = map (translate (0, 0, height / 2)) (vertices (cylinder lib radius height 5))
         \<and> face_colors (create_trunk lib height radius)
             = replicate (length (faces (create_trunk lib height radius))) [101, 67, 33, 255]"
proof -
  from assms have c: "centred_cylinder lib radius height 5"
    by (simp add: creation_contract_def)
  show ?thesis
    using create_trunk_extent [OF c] by (simp add: create_trunk_eq)
qed

theorem create_trunk_anchored_witness:
  "(0::real) < 4 \<and> (0::real) < 1 \<and> creation_contract coarse
   \<and> z_min (create_trunk coarse 4 1) = 0 \<and> z_max (create_trunk coarse 4 1) = 4
   \<and> face_colors (create_trunk coarse 4 1) = replicate 8 [101, 67, 33, 255]"
proof -
  have "length (faces (cylinder coarse 1 4 5)) = 8"
    by (simp add: coarse_def coarse_cylinder_def)
  with create_trunk_anchored [of 4 1 coarse] coarse_contract show ?thesis by simp
qed

section \<open>Selection of the archetype\<close>

text \<open>
  Claim C6. One draw \<open>rnd\<close> selects the generator of a tree: Roundy exactly when
  \<open>rnd < 0.4\<close>, Pointy exactly when \<open>0.4 \<le> rnd < 0.75\<close>, Stacked exactly when
  \<open>rnd \<ge> 0.75\<close>; the loop body uses one draw for it. The three intervals give the mix
  40% / 35% / 25%: of the \<open>20 * m\<close> equally spaced draws of \<open>[0, 1)\<close>, \<open>8 * m\<close> select
  Roundy, \<open>7 * m\<close> Pointy and \<open>5 * m\<close> Stacked.
\<close>

theorem archetype_thresholds:
  "(choose_archetype rnd = Roundy \<longleftrightarrow> rnd < 0.4)
   \<and> (choose_archetype rnd = Pointy \<longleftrightarrow> 0.4 \<le> rnd \<and> rnd < 0.75)
   \<and> (choose_archetype rnd = Stacked \<longleftrightarrow> 0.75 \<le> rnd)
   \<and> make_tree lib pos g =
       (case choose_archetype (sample g (used g)) of
          Roundy \<Rightarrow> create_roundy_tree lib pos (g\<lparr>used := Suc (used g)\<rparr>)
        | Pointy \<Rightarrow> create_pointy_tree lib pos (g\<lparr>used := Suc (used g)\<rparr>)
        | Stacked \<Rightarrow> create_stacked_tree lib pos (g\<lparr>used := Suc (used g)\<rparr>))
   \<and> grid_count Roundy (20 * m) = 8 * m
   \<and> grid_count Pointy (20 * m) = 7 * m
   \<and> grid_count Stacked (20 * m) = 5 * m"
  using choose_archetype_iff [of rnd] make_tree_eq [of lib pos g]
    grid_Roundy [of m] grid_Pointy [of m] grid_Stacked [of m]
  by blast

section \<open>One colour per triangle\<close>

text \<open>
  Claim C8. The number of colours equals the number of triangles for the trunk, for
  every primitive of every tree in its stacked place, for every merged tree and for the
  merged forest; \<open>stack_on_top\<close> and \<open>concatenate\<close> preserve the equality.
\<close>

theorem color_count:
  "one_color_per_face (create_trunk lib height radius)
   \<and> (roundy_parts lib g = Inr (trunk, crown, g1) \<longrightarrow>
        one_color_per_face trunk \<and> one_color_per_face crown)
   \<and> (pointy_parts lib g = Inr (trunk, crown, g1) \<longrightarrow>
        one_color_per_face trunk \<and> one_color_per_face crown)
   \<and> (stacked_parts lib g = Inr (trunk, c1, c2, g1) \<longrightarrow>
        one_color_per_face trunk \<and> one_color_per_face c1 \<and> one_color_per_face c2)
   \<and> (create_roundy_tree lib pos g = Inr (tree, g1) \<longrightarrow> one_color_per_face tree)
   \<and> (create_pointy_tree lib pos g = Inr (tree, g1) \<longrightarrow> one_color_per_face tree)
   \<and> (create_stacked_tree lib pos g = Inr (tree, g1) \<longrightarrow> one_color_per_face tree)
   \<and> (forest_mesh lib n_trees plot_size g = Inr forest \<longrightarrow> one_color_per_face forest)
   \<and> (one_color_per_face top_mesh \<and> stack_on_top bottom_mesh top_mesh overlap = Inr moved
        \<longrightarrow> one_color_per_face moved)
   \<and> ((\<forall>m\<in>set meshes. one_color_per_face m) \<longrightarrow> one_color_per_face (concatenate meshes))"
  using roundy_parts_colors [of lib g trunk crown g1]
    pointy_parts_colors [of lib g trunk crown g1]
    stacked_parts_colors [of lib g trunk c1 c2 g1]
    create_roundy_tree_colors [of lib pos g tree g1]
    create_pointy_tree_colors [of lib pos g tree g1]
    create_stacked_tree_colors [of lib pos g tree g1]
    forest_mesh_colors [of lib n_trees plot_size g forest]
    one_color_per_face_stack [of bottom_mesh top_mesh overlap moved]
    one_color_per_face_concatenate [of meshes]
  by (simp only: one_color_per_face_create_trunk) blast

theorem color_count_witness:
  "(\<exists>trunk crown g1. roundy_parts coarse (constant_rng (1 / 2)) = Inr (trunk, crown, g1)
       \<and> one_color_per_face trunk \<and> one_color_per_face crown)
   \<and> (\<exists>trunk crown g1. pointy_parts coarse (constant_rng (1 / 2)) = Inr (trunk, crown, g1)
       \<and> one_color_per_face trunk \<and> one_color_per_face crown)
   \<and> (\<exists>trunk c1 c2 g1. stacked_parts coarse (constant_rng (1 / 2)) = Inr (trunk, c1, c2, g1)
       \<and> one_color_per_face trunk \<and> one_color_per_face c1 \<and> one_color_per_face c2)
   \<and> (\<exists>tree g1. create_roundy_tree coarse (1, 2, 0) (constant_rng (1 / 2)) = Inr (tree, g1)
       \<and> one_color_per_face tree)
   \<and> (\<exists>tree g1. create_pointy_tree coarse (1, 2, 0) (constant_rng (1 / 2)) = Inr (tree, g1)
       \<and> one_color_per_face tree)
   \<and> (\<exists>tree g1. create_stacked_tree coarse (1, 2, 0) (constant_rng (1 / 2)) = Inr (tree, g1)
       \<and> one_color_per_face tree)
   \<and> (\<exists>forest. forest_mesh coarse 20 50 (constant_rng (1 / 2)) = Inr forest
       \<and> one_color_per_face forest)
   \<and> (one_color_per_face (coarse_cone 2 3 6)
       \<and> stack_on_top (coarse_cylinder 1 4 5) (coarse_cone 2 3 6) (1 / 2)
           = Inr (apply_translation (coarse_cone 2 3 6) (0, 0, 3 / 2))
       \<and> one_color_per_face (apply_translation (coarse_cone 2 3 6) (0, 0, 3 / 2)))
   \<and> one_color_per_face (concatenate [coarse_cone 2 3 6, coarse_cone 2 3 6])"
proof -
  let ?G = "constant_rng (1 / 2)"
  note c = coarse_contract and u = constant_rng_unit
  from roundy_parts_ok [OF c u] obtain t1 k1 ga where
    r: "roundy_parts coarse ?G = Inr (t1, k1, ga)" by blast
  have "one_color_per_face t1 \<and> one_color_per_face k1"
    using r color_count [where lib = coarse and g = ?G and trunk = t1 and crown = k1
        and ?g1.0 = ga]
    by blast
  with r have 1: "\<exists>trunk crown g1. roundy_parts coarse ?G = Inr (trunk, crown, g1)
       \<and> one_color_per_face trunk \<and> one_color_per_face crown"
    by blast
  from pointy_parts_ok [OF c u] obtain t2 k2 gb where
    p: "pointy_parts coarse ?G = Inr (t2, k2, gb)" by blast
  have "one_color_per_face t2 \<and> one_color_per_face k2"
    using p color_count [where lib = coarse and g = ?G and trunk = t2 and crown = k2
        and ?g1.0 = gb]
    by blast
  with p have 2: "\<exists>trunk crown g1. pointy_parts coarse ?G = Inr (trunk, crown, g1)
       \<and> one_color_per_face trunk \<and> one_color_per_face crown"
    by blast
  from stacked_parts_ok [OF c u] obtain t3 a3 b3 gc where
    s: "stacked_parts coarse ?G = Inr (t3, a3, b3, gc)" by blast
  have "one_color_per_face t3 \<and> one_color_per_face a3 \<and> one_color_per_face b3"
    using s color_count [where lib = coarse and g = ?G and trunk = t3 and ?c1.0 = a3
        and ?c2.0 = b3 and ?g1.0 = gc]
    by blast
  with s have 3: "\<exists>trunk c1 c2 g1. stacked_parts coarse ?G = Inr (trunk, c1, c2, g1)
       \<and> one_color_per_face trunk \<and> one_color_per_face c1 \<and> one_color_per_face c2"
    by blast
  from create_roundy_tree_ok [OF c u, of 1 2] obtain tr1 gd where
    rt: "create_roundy_tree coarse (1, 2, 0) ?G = Inr (tr1, gd)" by blast
  have "one_color_per_face tr1"
    using rt color_count [where lib = coarse and g = ?G and pos = "(1, 2, 0)" and tree = tr1
        and ?g1.0 = gd]
    by blast
  with rt have 4: "\<exists>tree g1. create_roundy_tree coarse (1, 2, 0) ?G = Inr (tree, g1)
       \<and> one_color_per_face tree"
    by blast
  from create_pointy_tree_ok [OF c u, of 1 2] obtain tr2 ge where
    pt: "create_pointy_tree coarse (1, 2, 0) ?G = Inr (tr2, ge)" by blast
  have "one_color_per_face tr2"
    using pt color_count [where lib = coarse and g = ?G and pos = "(1, 2, 0)" and tree = tr2
        and ?g1.0 = ge]
    by blast
  with pt have 5: "\<exists>tree g1. create_pointy_tree coarse (1, 2, 0) ?G = Inr (tree, g1)
       \<and> one_color_per_face tree"
    by blast
  from create_stacked_tree_ok [OF c u, of 1 2] obtain tr3 gf where
    st: "create_stacked_tree coarse (1, 2, 0) ?G = Inr (tr3, gf)" by blast
  have "one_color_per_face tr3"
    using st color_count [where lib = coarse and g = ?G and pos = "(1, 2, 0)" and tree = tr3
        and ?g1.0 = gf]
    by blast
  with st have 6: "\<exists>tree g1. create_stacked_tree coarse (1, 2, 0) ?G = Inr (tree, g1)
       \<and> one_color_per_face tree"
    by blast
  from forest_mesh_ok [OF c u, of 20 50] obtain forest where
    f: "forest_mesh coarse 20 50 ?G = Inr forest" by blast
  have "one_color_per_face forest"
    using f color_count [where lib = coarse and g = ?G and n_trees = 20 and plot_size = 50
        and forest = forest]
    by blast
  with f have 7: "\<exists>forest. forest_mesh coarse 20 50 ?G = Inr forest
       \<and> one_color_per_face forest"
    by blast
  have "one_color_per_face (apply_translation (coarse_cone 2 3 6) (0, 0, 3 / 2))"
    using coarse_cone_colors stack_example
      color_count [where top_mesh = "coarse_cone 2 3 6"
        and bottom_mesh = "coarse_cylinder 1 4 5" and overlap = "1 / 2"
        and moved = "apply_translation (coarse_cone 2 3 6) (0, 0, 3 / 2)"]
    by blast
  with coarse_cone_colors stack_example
  have 8: "one_color_per_face (coarse_cone 2 3 6)
       \<and> stack_on_top (coarse_cylinder 1 4 5) (coarse_cone 2 3 6) (1 / 2)
           = Inr (apply_translation (coarse_cone 2 3 6) (0, 0, 3 / 2))
       \<and> one_color_per_face (apply_translation (coarse_cone 2 3 6) (0, 0, 3 / 2))"
    by blast
  have 9: "one_color_per_face (concatenate [coarse_cone 2 3 6, coarse_cone 2 3 6])"
    using coarse_cone_colors
      color_count [where meshes = "[coarse_cone 2 3 6, coarse_cone 2 3 6]"]
    by simp
  from 1 2 3 4 5 6 7 8 9 show ?thesis by (elim conjE, intro conjI)
qed

section \<open>Trees on the ground\<close>

text \<open>
  Claim C10, as stated, fails in its middle part: the second cone of a Stacked tree is
  stacked on the first cone, not on the trunk. With every draw equal to 1 / 2 the trunk
  is 5 / 2 high and the lowest point of the second cone is at 11 / 2, not at
  5 / 2 - 0.5.
\<close>

theorem second_cone_counterexample:
  "\<not> isl (stacked_parts coarse (constant_rng (1 / 2)))
   \<and> z_max (fst (projr (stacked_parts coarse (constant_rng (1 / 2))))) = 5 / 2
   \<and> z_min (fst (snd (snd (projr (stacked_parts coarse (constant_rng (1 / 2))))))) = 11 / 2
   \<and> z_min (fst (snd (snd (projr (stacked_parts coarse (constant_rng (1 / 2)))))))
       \<noteq> z_max (fst (projr (stacked_parts coarse (constant_rng (1 / 2))))) - 0.5"
proof -
  have "z_max (create_trunk coarse (5 / 2) (7 / 10)) = 5 / 2"
    by (simp add: z_coarse_trunk)
  moreover have "z_min (apply_translation
           (set_face_colors (coarse_cone 2 3 7) [143, 188, 143, 255]) (0, 0, 11 / 2)) = 11 / 2"
    by (simp add: z_min_apply_translation solid_vertices solid_coarse z_coarse_cone zc_def)
  ultimately show ?thesis by (simp add: stacked_example)
qed

text \<open>
  Claim C10, amended. For every tree of the three generators at the ground position
  \<open>(px, py, 0)\<close> the minimum Z over the merged tree's vertices is exactly 0. The trunk
  spans Z from 0 to its sampled height, which is at least 2; the crown stacked on the
  trunk (the sphere, the cone, the first cone) has its lowest point at the trunk height
  minus 0.5; the second cone of a Stacked tree has its lowest point at the top of the
  first cone minus 0.5, which is positive; the final translation has Z component 0.
\<close>

theorem trees_rest_on_ground:
  assumes "creation_contract lib" and "unit_draws g"
  shows "(\<exists>trunk crown g1. roundy_parts lib g = Inr (trunk, crown, g1)
            \<and> z_min trunk = 0 \<and> z_max trunk = fst (uniform 3 6 g) \<and> 2 \<le> z_max trunk
            \<and> z_min crown = z_max trunk - 0.5)
       \<and> (\<exists>trunk crown g1. pointy_parts lib g = Inr (trunk, crown, g1)
            \<and> z_min trunk = 0 \<and> z_max trunk = fst (uniform 2 4 g) \<and> 2 \<le> z_max trunk
            \<and> z_min crown = z_max trunk - 0.5)
       \<and> (\<exists>trunk c1 c2 g1. stacked_parts lib g = Inr (trunk, c1, c2, g1)
            \<and> z_min trunk = 0 \<and> z_max trunk = fst (uniform 2 3 g) \<and> 2 \<le> z_max trunk
            \<and> z_min c1 = z_max trunk - 0.5 \<and> z_min c2 = z_max c1 - 0.5 \<and> 0 < z_min c2)
       \<and> (\<exists>tree g1. create_roundy_tree lib (px, py, 0) g = Inr (tree, g1) \<and> z_min tree = 0)
       \<and> (\<exists>tree g1. create_pointy_tree lib (px, py, 0) g = Inr (tree, g1) \<and> z_min tree = 0)
       \<and> (\<exists>tree g1. create_stacked_tree lib (px, py, 0) g = Inr (tree, g1) \<and> z_min tree = 0)"
proof -
  from roundy_parts_ok [OF assms]
  have 1: "\<exists>trunk crown g1. roundy_parts lib g = Inr (trunk, crown, g1)
            \<and> z_min trunk = 0 \<and> z_max trunk = fst (uniform 3 6 g) \<and> 2 \<le> z_max trunk
            \<and> z_min crown = z_max trunk - 0.5"
    by fastforce
  from pointy_parts_ok [OF assms]
  have 2: "\<exists>trunk crown g1. pointy_parts lib g = Inr (trunk, crown, g1)
            \<and> z_min trunk = 0 \<and> z_max trunk = fst (uniform 2 4 g) \<and> 2 \<le> z_max trunk
            \<and> z_min crown = z_max trunk - 0.5"
    by fastforce
  from stacked_parts_ok [OF assms] obtain trunk c1 c2 g1 where
    p: "stacked_parts lib g = Inr (trunk, c1, c2, g1)" "solid c1"
       "z_min trunk = 0" "z_max trunk = fst (uniform 2 3 g)" "2 \<le> z_max trunk"
       "z_min c1 = z_max trunk - 0.5" "z_min c2 = z_max c1 - 0.5"
    by blast
  have "z_min c1 \<le> z_max c1" using p(2) by (simp add: z_min_le_z_max solid_vertices)
  with p have "0 < z_min c2" by simp
  with p have 3: "\<exists>trunk c1 c2 g1. stacked_parts lib g = Inr (trunk, c1, c2, g1)
            \<and> z_min trunk = 0 \<and> z_max trunk = fst (uniform 2 3 g) \<and> 2 \<le> z_max trunk
            \<and> z_min c1 = z_max trunk - 0.5 \<and> z_min c2 = z_max c1 - 0.5 \<and> 0 < z_min c2"
    by blast
  from create_roundy_tree_ok [OF assms, of px py]
  have 4: "\<exists>tree g1. create_roundy_tree lib (px, py, 0) g = Inr (tree, g1) \<and> z_min tree = 0"
    by blast
  from create_pointy_tree_ok [OF assms, of px py]
  have 5: "\<exists>tree g1. create_pointy_tree lib (px, py, 0) g = Inr (tree, g1) \<and> z_min tree = 0"
    by blast
  from create_stacked_tree_ok [OF assms, of px py]
  have 6: "\<exists>tree g1. create_stacked_tree lib (px, py, 0) g = Inr (tree, g1) \<and> z_min tree = 0"
    by blast
  from 1 2 3 4 5 6 show ?thesis by (intro conjI)
qed

theorem trees_rest_on_ground_witness:
  "creation_contract coarse \<and> unit_draws (constant_rng (1 / 2))
   \<and> (\<exists>trunk c1 c2 g1. stacked_parts coarse (constant_rng (1 / 2)) = Inr (trunk, c1, c2, g1)
         \<and> z_min trunk = 0 \<and> z_max trunk = 5 / 2 \<and> z_min c1 = 2 \<and> z_min c2 = z_max c1 - 1 / 2)
   \<and> (\<exists>tree g1. create_stacked_tree coarse (1, 2, 0) (constant_rng (1 / 2)) = Inr (tree, g1)
         \<and> z_min tree = 0)"
proof -
  have "fst (uniform 2 3 (constant_rng (1 / 2))) = 5 / 2"
    by (simp add: uniform_eq constant_rng_def)
  with trees_rest_on_ground [OF coarse_contract constant_rng_unit, of 1 2]
  show ?thesis using coarse_contract constant_rng_unit by fastforce
qed

section \<open>The forest and the ground\<close>

text \<open>
  Claim C2, as stated, fails: the ground quad is not part of the merged forest buffer.
  For 20 trees on a plot of size 50 the forest mesh has no vertex at the ground corner
  \<open>(- 50 / 1.8, - 50 / 1.8, - 0.1)\<close>, and the figure holds two traces.
\<close>

theorem ground_not_in_forest_counterexample:
  "\<not> isl (forest_mesh coarse 20 50 (constant_rng (1 / 2)))
   \<and> (- (50 / 1.8), - (50 / 1.8), - 0.1)
       \<notin> set (vertices (projr (forest_mesh coarse 20 50 (constant_rng (1 / 2)))))
   \<and> map trace_name (projr (figure coarse 20 50 (constant_rng (1 / 2)))) = [''Trees'', ''Ground'']"
proof -
  from forest_mesh_trees [OF coarse_contract constant_rng_unit, of 20 50] obtain meshes where
    m: "forest_mesh coarse 20 50 (constant_rng (1 / 2)) = Inr (concatenate meshes)"
       "\<forall>m\<in>set meshes. vertices m \<noteq> [] \<and> z_min m = 0"
    by blast
  have "(- (50 / 1.8), - (50 / 1.8), - 0.1) \<notin> set (vertices (concatenate meshes))"
  proof
    assume "(- (50 / 1.8), - (50 / 1.8), - 0.1) \<in> set (vertices (concatenate meshes))"
    from above_ground [OF m(2) this] show False by (simp add: zc_def)
  qed
  then show ?thesis
    by (simp add: m(1) figure_eq [OF m(1)] trees_trace_def ground_trace_def)
qed

text \<open>
  Claim C2, amended. \<open>forest_mesh\<close> is the concatenation of the \<open>n_trees\<close> trees grown
  by the loop and nothing else; all its vertices have Z \<ge> 0. The figure consists of two
  traces: the trace of the trees, which carries the vertices, triangles and colours of
  \<open>forest_mesh\<close>, and a separate trace of the ground with its own four vertices at
  plus and minus \<open>plot_size / 1.8\<close> in X and Y and Z = - 0.1, its own two triangles (0, 1, 2) and
  (0, 2, 3), which share vertex 0, and the colour \<open>rgb(160, 200, 120)\<close>.
\<close>

theorem figure_traces:
  assumes "creation_contract lib" and "unit_draws g"
  shows "(\<exists>meshes g2.
            grow lib (fst (uniform_rows n_trees (- (real_of_int plot_size / 2))
                             (real_of_int plot_size / 2) g))
              (snd (uniform_rows n_trees (- (real_of_int plot_size / 2))
                             (real_of_int plot_size / 2) g)) = Inr (meshes, g2)
            \<and> length meshes = n_trees
            \<and> forest_mesh lib n_trees plot_size g = Inr (concatenate meshes)
            \<and> figure lib n_trees plot_size g
                = Inr [trees_trace (concatenate meshes), ground_trace plot_size]
            \<and> trace_vertices (trees_trace (concatenate meshes)) = concat (map vertices meshes)
            \<and> trace_triangles (trees_trace (concatenate meshes)) = append_faces 0 meshes
            \<and> trace_facecolor (trees_trace (concatenate meshes))
                = Some (map (take 3) (concat (map face_colors meshes)))
            \<and> (\<forall>v\<in>set (trace_vertices (trees_trace (concatenate meshes))). 0 \<le> zc v))
         \<and> trace_vertices (ground_trace plot_size)
             = [(- (real_of_int plot_size / 1.8), - (real_of_int plot_size / 1.8), - 0.1),
                (real_of_int plot_size / 1.8, - (real_of_int plot_size / 1.8), - 0.1),
                (real_of_int plot_size / 1.8, real_of_int plot_size / 1.8, - 0.1),
                (- (real_of_int plot_size / 1.8), real_of_int plot_size / 1.8, - 0.1)]
         \<and> trace_triangles (ground_trace plot_size) = [(0, 1, 2), (0, 2, 3)]
         \<and> trace_color (ground_trace plot_size) = Some ''rgb(160, 200, 120)''"
proof -
  from forest_mesh_trees [OF assms, of n_trees plot_size] obtain meshes g2 where
    m: "grow lib (fst (uniform_rows n_trees (- (real_of_int plot_size / 2))
                             (real_of_int plot_size / 2) g))
              (snd (uniform_rows n_trees (- (real_of_int plot_size / 2))
                             (real_of_int plot_size / 2) g)) = Inr (meshes, g2)"
       "forest_mesh lib n_trees plot_size g = Inr (concatenate meshes)"
       "length meshes = n_trees"
       "\<forall>m\<in>set meshes. vertices m \<noteq> [] \<and> z_min m = 0"
    by blast
  have up: "\<forall>v\<in>set (trace_vertices (trees_trace (concatenate meshes))). 0 \<le> zc v"
    using above_ground [OF m(4)] by simp
  have tf: "trace_facecolor (trees_trace (concatenate meshes))
                = Some (map (take 3) (concat (map face_colors meshes)))"
    by (simp add: trees_trace_def)
  from m(1,2,3) figure_eq [OF m(2)] up tf
  have "\<exists>meshes g2.
            grow lib (fst (uniform_rows n_trees (- (real_of_int plot_size / 2))
                             (real_of_int plot_size / 2) g))
              (snd (uniform_rows n_trees (- (real_of_int plot_size / 2))
                             (real_of_int plot_size / 2) g)) = Inr (meshes, g2)
            \<and> length meshes = n_trees
            \<and> forest_mesh lib n_trees plot_size g = Inr (concatenate meshes)
            \<and> figure lib n_trees plot_size g
                = Inr [trees_trace (concatenate meshes), ground_trace plot_size]
            \<and> trace_vertices (trees_trace (concatenate meshes)) = concat (map vertices meshes)
            \<and> trace_triangles (trees_trace (concatenate meshes)) = append_faces 0 meshes
            \<and> trace_facecolor (trees_trace (concatenate meshes))
                = Some (map (take 3) (concat (map face_colors meshes)))
            \<and> (\<forall>v\<in>set (trace_vertices (trees_trace (concatenate meshes))). 0 \<le> zc v)"
    by (intro exI [of _ meshes] exI [of _ g2]) simp
  then show ?thesis
    using ground_trace_geometry(1,2,3) [of plot_size] by (intro conjI)
qed

theorem figure_traces_witness:
  "creation_contract coarse \<and> unit_draws (constant_rng (1 / 2))
   \<and> (\<exists>meshes. length meshes = 20
        \<and> forest_mesh coarse 20 50 (constant_rng (1 / 2)) = Inr (concatenate meshes)
        \<and> figure coarse 20 50 (constant_rng (1 / 2))
            = Inr [trees_trace (concatenate meshes), ground_trace 50]
        \<and> (\<forall>v\<in>set (trace_vertices (trees_trace (concatenate meshes))). 0 \<le> zc v))
   \<and> trace_triangles (ground_trace 50) = [(0, 1, 2), (0, 2, 3)]"
  using figure_traces [OF coarse_contract constant_rng_unit, of 20 50]
    coarse_contract constant_rng_unit
  by blast

section \<open>Values outside the sliders' ranges\<close>




end
